theory Spec2Isabelle
  imports Main "HOL-Library.Word"
begin

unbundle bit_operations_syntax

section \<open>The OptiX BVH packer of Cycles (intern/cycles/bvh/bvh_optix.cpp)\<close>

text \<open>
  The embedding follows \<^verbatim>\<open>BVHOptiX\<close>: the bottom-level packer \<^verbatim>\<open>pack_blas\<close>, the
  top-level packer \<^verbatim>\<open>pack_tlas\<close> with its task body \<^verbatim>\<open>pack_instance\<close>, and
  \<^verbatim>\<open>copy_to_device\<close>. A C++ \<^verbatim>\<open>int\<close> and a \<^verbatim>\<open>uint\<close> are 32-bit words (a conversion
  between them keeps the bits); a \<^verbatim>\<open>size_t\<close> that counts elements of an array in
  memory is a natural number, and is turned into a word where the code stores it in
  an \<^verbatim>\<open>int\<close> or \<^verbatim>\<open>uint\<close>. An \<^verbatim>\<open>array<T>\<close> is the list of its elements; its capacity
  is not modelled, so \<^verbatim>\<open>reserve\<close> does nothing to the list and
  \<^verbatim>\<open>push_back_reserved\<close> appends one element.
\<close>

subsection \<open>Data\<close>

type_synonym cint = "32 word"
type_synonym uint = "32 word"

text \<open>A \<^verbatim>\<open>float4\<close> is only ever copied here: it is kept as the bit patterns of its four floats.\<close>

datatype float4 = make_float4 "32 word" "32 word" "32 word" "32 word"

text \<open>The arrays of \<^verbatim>\<open>PackedBVH\<close> that this file reads or writes.\<close>

record PackedBVH =
  prim_type :: "cint list"
  prim_index :: "cint list"
  prim_object :: "cint list"
  prim_visibility :: "uint list"
  prim_tri_index :: "uint list"
  prim_tri_verts :: "float4 list"

datatype GeometryType = MESH | HAIR | VOLUME

datatype CurveShapeType = CURVE_RIBBON | CURVE_THICK

text \<open>
  What the packer asks of a \<^verbatim>\<open>Geometry\<close> (a \<^verbatim>\<open>Mesh\<close>, \<^verbatim>\<open>Volume\<close> or \<^verbatim>\<open>Hair\<close>):
  \<open>attr_motion_vertex_position\<close> is whether
  \<^verbatim>\<open>attributes.find(ATTR_STD_MOTION_VERTEX_POSITION)\<close> finds the attribute;
  \<open>curve_num_segments\<close> lists \<^verbatim>\<open>get_curve(j).num_segments()\<close> for the curves
  \<open>j < num_curves()\<close> of a hair; \<open>prim_offset\<close> is \<^verbatim>\<open>geom->prim_offset\<close> as the
  \<^verbatim>\<open>int\<close> that \<^verbatim>\<open>pack_instance\<close> reads it into; \<open>bvh_pack\<close> is
  \<^verbatim>\<open>geom->bvh->pack\<close>, the bottom-level pack of the geometry.
\<close>

record Geometry =
  geometry_type :: GeometryType
  use_motion_blur :: bool
  attr_motion_vertex_position :: bool
  num_triangles :: nat
  curve_num_segments :: "nat list"
  curve_shape :: CurveShapeType
  prim_offset :: cint
  is_modified :: bool
  triangles_is_modified :: bool
  is_instanced :: bool
  bvh_pack :: PackedBVH

text \<open>
  A \<^verbatim>\<open>Geometry *\<close> is an address. The store is split by what this file does to it:
  the members above are only read, and live in a store from addresses to \<open>Geometry\<close>;
  the one member that \<^verbatim>\<open>pack_tlas\<close> writes, \<^verbatim>\<open>geom->bvh->device_verts_pointer\<close>, has
  a store of its own.
\<close>

type_synonym geom_ptr = nat
type_synonym geom_store = "geom_ptr \<Rightarrow> Geometry"
type_synonym verts_pointer_store = "geom_ptr \<Rightarrow> nat"

record Object =
  ob_geometry :: geom_ptr
  visibility :: uint
  visibility_is_modified :: bool
  is_shadow_catcher_is_modified :: bool
  device_index :: cint

text \<open>
  \<^verbatim>\<open>BVHOptiX\<close> with the members of \<^verbatim>\<open>BVH\<close> it uses: \<open>top_level\<close> and
  \<open>pack_all_data\<close> are \<^verbatim>\<open>params.top_level\<close> and \<^verbatim>\<open>params.pack_all_data\<close>.
\<close>

record BVHOptiX =
  top_level :: bool
  pack_all_data :: bool
  geometry :: "geom_ptr list"
  objects :: "Object list"
  pack :: PackedBVH
  do_refit :: bool

text \<open>
  The declarations that the sources of this file do not contain are parameters,
  collected in one record: the primitive type tags and the macro
  \<^verbatim>\<open>PRIMITIVE_PACK_SEGMENT\<close> of the kernel, \<^verbatim>\<open>Object::visibility_for_tracing\<close>,
  the content of the cells that \<^verbatim>\<open>array::resize\<close> adds without initialising them,
  the shared step \<^verbatim>\<open>BVH::pack_primitives\<close> and the device's
  \<^verbatim>\<open>build_optix_bvh\<close>.

  \<^verbatim>\<open>pack_primitives\<close> is called with the state it can read; following the comment at
  its call (\<^verbatim>\<open>Update 'pack.prim_tri_index', 'pack.prim_tri_verts' and
  'pack.prim_visibility'\<close>) it yields the new content of these three arrays, or
  \<open>None\<close> when it does not return to its caller (a C++ exception leaves it).
  \<^verbatim>\<open>build_optix_bvh\<close> reads the BVH and reports success.
\<close>

record env =
  PRIMITIVE_TRIANGLE :: uint
  PRIMITIVE_MOTION_TRIANGLE :: uint
  PRIMITIVE_CURVE_THICK :: uint
  PRIMITIVE_MOTION_CURVE_THICK :: uint
  PRIMITIVE_CURVE_RIBBON :: uint
  PRIMITIVE_MOTION_CURVE_RIBBON :: uint
  PRIMITIVE_ALL_CURVE :: uint
  PRIMITIVE_PACK_SEGMENT :: "uint \<Rightarrow> nat \<Rightarrow> cint"
  visibility_for_tracing :: "Object \<Rightarrow> uint"
  uninitialized :: "nat \<Rightarrow> 32 word"
  uninitialized_verts :: "nat \<Rightarrow> float4"
  pack_primitives :: "geom_store \<Rightarrow> BVHOptiX \<Rightarrow> (uint list \<times> float4 list \<times> uint list) option"
  build_optix_bvh :: "BVHOptiX \<Rightarrow> bool"

datatype error = AssertionFailed | PackPrimitivesThrew | OutOfBounds

subsection \<open>Arrays\<close>

text \<open>
  Modelled from the spec: \<^verbatim>\<open>array<T>::resize\<close> (util_array.h is not among the
  sources) "resizes arrays to" the given count. The elements below the new size stay,
  the cells beyond the old size hold whatever the parameter \<open>junk\<close> says; the
  allocation is taken to succeed.
\<close>

definition resize :: "(nat \<Rightarrow> 'a) \<Rightarrow> nat \<Rightarrow> 'a list \<Rightarrow> 'a list" where
  "resize junk newsize a = take newsize a @ map junk [length a..<newsize]"

subsection \<open>copy_to_device\<close>

text \<open>
  The \<^verbatim>\<open>Progress\<close> collaborator is the list of the calls it has received, oldest
  first.
\<close>

datatype progress_call = set_status string string | set_error string

type_synonym Progress = "progress_call list"

definition copy_to_device :: "env \<Rightarrow> Progress \<Rightarrow> BVHOptiX \<Rightarrow> Progress \<times> BVHOptiX" where
  "copy_to_device K progress s =
     (let progress1 = progress @ [set_status ''Updating Scene BVH'' ''Building OptiX acceleration structure'']
      in if \<not> build_optix_bvh K s
         then (progress1 @ [set_error ''Failed to build OptiX acceleration structure''], s)
         else (progress1, s))"

subsection \<open>pack_blas\<close>

text \<open>The inner loop over the segments \<open>k\<close> of curve \<open>j\<close> (lines 93 to 98).\<close>

fun pack_curve_segments :: "env \<Rightarrow> uint \<Rightarrow> nat \<Rightarrow> nat list \<Rightarrow> PackedBVH \<Rightarrow> PackedBVH" where
  "pack_curve_segments K type j [] p = p"
| "pack_curve_segments K type j (k # ks) p =
     pack_curve_segments K type j ks
       (p\<lparr>prim_type := prim_type p @ [PRIMITIVE_PACK_SEGMENT K type k],
          prim_index := prim_index p @ [word_of_nat j],
          prim_object := prim_object p @ [0]\<rparr>)"

text \<open>
  The outer loop over the curves (lines 91 to 99): the list holds the segment counts
  of the curves still to visit, \<open>j\<close> is the index of the first of them.
\<close>

fun pack_curves :: "env \<Rightarrow> uint \<Rightarrow> nat list \<Rightarrow> nat \<Rightarrow> PackedBVH \<Rightarrow> PackedBVH" where
  "pack_curves K type [] j p = p"
| "pack_curves K type (n # ns) j p =
     pack_curves K type ns (Suc j) (pack_curve_segments K type j [0..<n] p)"

definition hair_type :: "env \<Rightarrow> Geometry \<Rightarrow> uint" where
  "hair_type K hair =
     (if use_motion_blur hair \<and> attr_motion_vertex_position hair
      then (if curve_shape hair = CURVE_RIBBON then PRIMITIVE_MOTION_CURVE_RIBBON K
            else PRIMITIVE_MOTION_CURVE_THICK K)
      else (if curve_shape hair = CURVE_RIBBON then PRIMITIVE_CURVE_RIBBON K
            else PRIMITIVE_CURVE_THICK K))"

definition pack_blas_hair :: "env \<Rightarrow> Geometry \<Rightarrow> PackedBVH \<Rightarrow> PackedBVH" where
  "pack_blas_hair K hair p =
     (if length (curve_num_segments hair) > 0
      then pack_curves K (hair_type K hair) (curve_num_segments hair) 0 p
      else p)"

definition mesh_type :: "env \<Rightarrow> Geometry \<Rightarrow> uint" where
  "mesh_type K mesh =
     (if use_motion_blur mesh \<and> attr_motion_vertex_position mesh
      then PRIMITIVE_MOTION_TRIANGLE K else PRIMITIVE_TRIANGLE K)"

definition pack_blas_mesh :: "env \<Rightarrow> Geometry \<Rightarrow> PackedBVH \<Rightarrow> PackedBVH" where
  "pack_blas_mesh K mesh p =
     (if num_triangles mesh > 0
      then
        let n = num_triangles mesh;
            pack_prim_type = resize (uninitialized K) n (prim_type p);
            pack_prim_index = resize (uninitialized K) n (prim_index p);
            type = mesh_type K mesh
        in p\<lparr>prim_type := fold (\<lambda>k a. a[k := type]) [0..<n] pack_prim_type,
             prim_index := fold (\<lambda>k a. a[k := word_of_nat k]) [0..<n] pack_prim_index\<rparr>
      else p)"

text \<open>
  \<^verbatim>\<open>pack_blas\<close>. The assertion of line 70 is the error \<open>AssertionFailed\<close>. When
  \<^verbatim>\<open>pack_primitives\<close> throws, the exception leaves \<^verbatim>\<open>pack_blas\<close> at line 128 (there is
  no handler): the result is \<open>Inl\<close> with the state at that moment.
\<close>

definition set_visibility :: "uint \<Rightarrow> Object \<Rightarrow> Object" where
  "set_visibility v ob = ob\<lparr>visibility := v\<rparr>"

definition pack_blas :: "env \<Rightarrow> geom_store \<Rightarrow> BVHOptiX \<Rightarrow> (error \<times> BVHOptiX) + BVHOptiX" where
  "pack_blas K geoms s =
     (if \<not> (length (geometry s) = 1 \<and> length (objects s) = 1) then Inl (AssertionFailed, s)
      else
        let geom = geoms (geometry s ! 0);
            s1 = (if geometry_type geom = HAIR
                  then s\<lparr>pack := pack_blas_hair K geom (pack s)\<rparr>
                  else if geometry_type geom = MESH \<or> geometry_type geom = VOLUME
                  then s\<lparr>pack := pack_blas_mesh K geom (pack s)\<rparr>
                  else s);
            prev_visibility = visibility (objects s1 ! 0);
            s2 = s1\<lparr>objects := (objects s1)[0 := set_visibility 0 (objects s1 ! 0)]\<rparr>
        in case pack_primitives K geoms s2 of
             None \<Rightarrow> Inl (PackPrimitivesThrew, s2)
           | Some (tri_index, tri_verts, vis) \<Rightarrow>
               let s3 = s2\<lparr>pack := (pack s2)\<lparr>prim_tri_index := tri_index,
                                              prim_tri_verts := tri_verts,
                                              prim_visibility := vis\<rparr>\<rparr>
               in Inr (s3\<lparr>objects := (objects s3)[0 := set_visibility prev_visibility (objects s3 ! 0)]\<rparr>))"

text \<open>The state in which a call of \<^verbatim>\<open>pack_blas\<close> leaves the BVH, however it ends.\<close>

definition state_of :: "(error \<times> BVHOptiX) + BVHOptiX \<Rightarrow> BVHOptiX" where
  "state_of r = (case r of Inl (e, s) \<Rightarrow> s | Inr s \<Rightarrow> s)"

subsection \<open>pack_instance\<close>

text \<open>
  The arguments that \<^verbatim>\<open>function_bind\<close> binds to \<^verbatim>\<open>pack_instance\<close> when a task is
  pushed to the pool (lines 185 to 193).
\<close>

record Task =
  task_geom :: geom_ptr
  task_pack_offset :: nat
  task_pack_verts_offset :: nat
  task_object_index :: cint
  task_object_visibility :: cint
  task_force_pack :: bool
  task_visibility_modified :: bool

text \<open>
  Modelled from the spec: \<^verbatim>\<open>Geometry::is_mesh\<close> (geometry.h is not among the sources)
  is true of a mesh only: "curve/volume geometries always need it; mesh geometries
  need it only if their triangle topology changed", as the comment of line 232 says
  too (the default stays true for volumes and curves).
\<close>

definition is_mesh :: "Geometry \<Rightarrow> bool" where
  "is_mesh geom = (geometry_type geom = MESH)"

text \<open>
  \<^verbatim>\<open>pack_instance\<close> writes through raw pointers into the arrays of the scene pack and
  reads the arrays of the bottom-level pack by index. An access outside its array is
  undefined behaviour in C++ (or a failed assertion of \<^verbatim>\<open>operator[]\<close>); here it is
  the error \<open>OutOfBounds\<close>.

  One pass of the loop of lines 246 to 259: source slot \<open>i\<close>, destination slot
  \<open>pack_offset\<close>. Adding the \<^verbatim>\<open>size_t\<close> offset to a \<^verbatim>\<open>uint\<close> and storing the sum in a
  \<^verbatim>\<open>uint\<close> is the addition of 32-bit words.
\<close>

definition pack_instance_slot ::
  "env \<Rightarrow> PackedBVH \<Rightarrow> cint \<Rightarrow> nat \<Rightarrow> cint \<Rightarrow> cint \<Rightarrow> nat \<Rightarrow> nat \<Rightarrow> PackedBVH \<Rightarrow> error + PackedBVH" where
  "pack_instance_slot K src geom_prim_offset pack_verts_offset object_index object_visibility
       i pack_offset p =
     (if \<not> (i < length (prim_type src) \<and> i < length (prim_index src)) then Inl OutOfBounds
      else if \<not> (pack_offset < length (prim_index p) \<and> pack_offset < length (prim_tri_index p) \<and>
                  pack_offset < length (prim_type p) \<and> pack_offset < length (prim_object p) \<and>
                  pack_offset < length (prim_visibility p)) then Inl OutOfBounds
      else if prim_type src ! i AND PRIMITIVE_ALL_CURVE K \<noteq> 0 then
        Inr (p\<lparr>prim_index := (prim_index p)[pack_offset := prim_index src ! i + geom_prim_offset],
               prim_tri_index := (prim_tri_index p)[pack_offset := - 1],
               prim_type := (prim_type p)[pack_offset := prim_type src ! i],
               prim_object := (prim_object p)[pack_offset := object_index],
               prim_visibility := (prim_visibility p)[pack_offset := object_visibility]\<rparr>)
      else if \<not> i < length (prim_tri_index src) then Inl OutOfBounds
      else
        Inr (p\<lparr>prim_index := (prim_index p)[pack_offset := prim_index src ! i + geom_prim_offset],
               prim_tri_index := (prim_tri_index p)
                 [pack_offset := prim_tri_index src ! i + word_of_nat pack_verts_offset],
               prim_type := (prim_type p)[pack_offset := prim_type src ! i],
               prim_object := (prim_object p)[pack_offset := object_index],
               prim_visibility := (prim_visibility p)[pack_offset := object_visibility]\<rparr>))"

text \<open>The loop: \<^verbatim>\<open>for (i = 0; i < size; i++, pack_offset++)\<close>, over the indices still to do.\<close>

fun pack_instance_loop ::
  "env \<Rightarrow> PackedBVH \<Rightarrow> cint \<Rightarrow> nat \<Rightarrow> cint \<Rightarrow> cint \<Rightarrow> nat list \<Rightarrow> nat \<Rightarrow> PackedBVH \<Rightarrow> error + PackedBVH" where
  "pack_instance_loop K src gpo pvo oi ov [] pack_offset p = Inr p"
| "pack_instance_loop K src gpo pvo oi ov (i # is) pack_offset p =
     (case pack_instance_slot K src gpo pvo oi ov i pack_offset p of
        Inl e \<Rightarrow> Inl e
      | Inr p' \<Rightarrow> pack_instance_loop K src gpo pvo oi ov is (Suc pack_offset) p')"

text \<open>\<^verbatim>\<open>memcpy(dst + offset, src, n * sizeof(float4))\<close> with \<open>n\<close> the length of \<open>src\<close>.\<close>

definition memcpy :: "'a list \<Rightarrow> nat \<Rightarrow> 'a list \<Rightarrow> error + 'a list" where
  "memcpy dst offset src =
     (if offset + length src \<le> length dst
      then Inr (take offset dst @ src @ drop (offset + length src) dst)
      else Inl OutOfBounds)"

definition pack_instance :: "env \<Rightarrow> geom_store \<Rightarrow> Task \<Rightarrow> PackedBVH \<Rightarrow> error + PackedBVH" where
  "pack_instance K geoms t p =
     (let geom = geoms (task_geom t);
          src = bvh_pack geom;
          geom_prim_offset = prim_offset geom;
          merged =
            (if prim_index src \<noteq> [] then
               if prim_type src = [] \<or> prim_tri_index src = [] then Inl OutOfBounds
               else
                 let prims_have_changed =
                       ((if is_mesh geom
                         then (if \<not> triangles_is_modified geom \<and> \<not> task_force_pack t
                               then False else True)
                         else True)
                        \<or> task_visibility_modified t)
                 in if prims_have_changed
                    then pack_instance_loop K src geom_prim_offset (task_pack_verts_offset t)
                           (task_object_index t) (task_object_visibility t)
                           [0..<length (prim_index src)] (task_pack_offset t) p
                    else Inr p
             else Inr p)
      in case merged of
           Inl e \<Rightarrow> Inl e
         | Inr p1 \<Rightarrow>
             if prim_tri_verts src \<noteq> [] then
               (case memcpy (prim_tri_verts p1) (task_pack_verts_offset t) (prim_tri_verts src) of
                  Inl e \<Rightarrow> Inl e
                | Inr verts \<Rightarrow> Inr (p1\<lparr>prim_tri_verts := verts\<rparr>))
             else Inr p1)"

subsection \<open>pack_tlas\<close>

text \<open>
  The scan of the objects (lines 168 to 182) for the geometry at address \<open>geom\<close>,
  whose record is \<open>g\<close>: the list holds the objects still to visit, the triple is
  \<open>(object_index, object_visibility, visibility_modified)\<close>. The \<^verbatim>\<open>break\<close> ends the
  scan at the first object of a geometry that is not instanced.
\<close>

fun scan_objects ::
  "env \<Rightarrow> geom_ptr \<Rightarrow> Geometry \<Rightarrow> Object list \<Rightarrow> cint \<times> cint \<times> bool \<Rightarrow> cint \<times> cint \<times> bool" where
  "scan_objects K geom g [] acc = acc"
| "scan_objects K geom g (ob # obs) (object_index, object_visibility, visibility_modified) =
     (if ob_geometry ob = geom then
        let object_visibility1 = object_visibility OR visibility_for_tracing K ob;
            visibility_modified1 = (visibility_modified \<or> visibility_is_modified ob \<or>
                                     is_shadow_catcher_is_modified ob)
        in if \<not> is_instanced g
           then (device_index ob, object_visibility1, visibility_modified1)
           else scan_objects K geom g obs (object_index, object_visibility1, visibility_modified1)
      else scan_objects K geom g obs (object_index, object_visibility, visibility_modified))"

text \<open>
  The loop over the geometries (lines 163 to 203): the list holds the geometries
  still to visit; the state is the store of the vertex pointers, the two running
  offsets and the tasks pushed to the pool so far, oldest first.
\<close>

fun pack_tlas_loop ::
  "env \<Rightarrow> geom_store \<Rightarrow> BVHOptiX \<Rightarrow> geom_ptr list \<Rightarrow>
   verts_pointer_store \<times> nat \<times> nat \<times> Task list \<Rightarrow> verts_pointer_store \<times> nat \<times> nat \<times> Task list" where
  "pack_tlas_loop K geoms s [] st = st"
| "pack_tlas_loop K geoms s (geom # rest) (device_verts_pointer, pack_offset, pack_verts_offset, pool) =
     (let src = bvh_pack (geoms geom);
          device_verts_pointer1 = device_verts_pointer(geom := pack_verts_offset);
          (object_index, object_visibility, visibility_modified) =
             scan_objects K geom (geoms geom) (objects s) (0, 0, False);
          pool1 = (if is_modified (geoms geom) \<or> pack_all_data s
                   then pool @ [\<lparr>task_geom = geom, task_pack_offset = pack_offset,
                                  task_pack_verts_offset = pack_verts_offset,
                                  task_object_index = object_index,
                                  task_object_visibility = object_visibility,
                                  task_force_pack = pack_all_data s,
                                  task_visibility_modified = visibility_modified\<rparr>]
                   else pool);
          pack_offset1 = (if prim_index src \<noteq> [] then pack_offset + length (prim_index src)
                          else pack_offset);
          pack_verts_offset1 = (if prim_tri_verts src \<noteq> []
                                then pack_verts_offset + length (prim_tri_verts src)
                                else pack_verts_offset)
      in pack_tlas_loop K geoms s rest (device_verts_pointer1, pack_offset1, pack_verts_offset1, pool1))"

text \<open>
  Lines 136 to 203: the totals, the early return, the resizes and the loop. The
  result is the store of the vertex pointers, the BVH and the pool; the early return
  comes before the pool exists, so no task is pushed.
\<close>

definition pack_tlas_dispatch ::
  "env \<Rightarrow> geom_store \<Rightarrow> verts_pointer_store \<times> BVHOptiX \<Rightarrow> verts_pointer_store \<times> BVHOptiX \<times> Task list" where
  "pack_tlas_dispatch K geoms st =
     (case st of (device_verts_pointer, s) \<Rightarrow>
        let (prim_index_size, prim_tri_verts_size) =
              fold (\<lambda>geom (a, b). (a + length (prim_index (bvh_pack (geoms geom))),
                                    b + length (prim_tri_verts (bvh_pack (geoms geom)))))
                (geometry s) (0, 0)
        in if prim_index_size = 0 then (device_verts_pointer, s, [])
           else
             let p = (pack s)
                   \<lparr>prim_type := resize (uninitialized K) prim_index_size (prim_type (pack s)),
                    prim_index := resize (uninitialized K) prim_index_size (prim_index (pack s)),
                    prim_object := resize (uninitialized K) prim_index_size (prim_object (pack s)),
                    prim_visibility := resize (uninitialized K) prim_index_size (prim_visibility (pack s)),
                    prim_tri_index := resize (uninitialized K) prim_index_size (prim_tri_index (pack s)),
                    prim_tri_verts := resize (uninitialized_verts K) prim_tri_verts_size
                                        (prim_tri_verts (pack s))\<rparr>;
                 (device_verts_pointer1, pack_offset, pack_verts_offset, pool) =
                    pack_tlas_loop K geoms s (geometry s) (device_verts_pointer, 0, 0, [])
             in (device_verts_pointer1, s\<lparr>pack := p\<rparr>, pool))"

text \<open>
  \<^verbatim>\<open>pool.wait_work()\<close>: the tasks of the pool have run when it returns. Every task writes
  the slots of the scene pack that start at its own offsets and reads the bottom-level
  pack of its geometry, which nothing writes meanwhile; the tasks are run here one
  after the other, in the order in which they were pushed.
\<close>

fun wait_work :: "env \<Rightarrow> geom_store \<Rightarrow> Task list \<Rightarrow> PackedBVH \<Rightarrow> error + PackedBVH" where
  "wait_work K geoms [] p = Inr p"
| "wait_work K geoms (t # pool) p =
     (case pack_instance K geoms t p of
        Inl e \<Rightarrow> Inl e
      | Inr p' \<Rightarrow> wait_work K geoms pool p')"

definition pack_tlas ::
  "env \<Rightarrow> geom_store \<Rightarrow> verts_pointer_store \<times> BVHOptiX \<Rightarrow> error + (verts_pointer_store \<times> BVHOptiX)" where
  "pack_tlas K geoms st =
     (case pack_tlas_dispatch K geoms st of (device_verts_pointer, s, pool) \<Rightarrow>
        (case wait_work K geoms pool (pack s) of
           Inl e \<Rightarrow> Inl e
         | Inr p \<Rightarrow> Inr (device_verts_pointer, s\<lparr>pack := p\<rparr>)))"

subsection \<open>build and refit_nodes\<close>

text \<open>
  \<^verbatim>\<open>build\<close> chooses the packer by \<^verbatim>\<open>params.top_level\<close>; an exception of
  \<^verbatim>\<open>pack_primitives\<close> passes through it.
\<close>

definition build ::
  "env \<Rightarrow> geom_store \<Rightarrow> verts_pointer_store \<times> BVHOptiX \<Rightarrow>
   (error \<times> BVHOptiX) + (verts_pointer_store \<times> BVHOptiX)" where
  "build K geoms st =
     (case st of (device_verts_pointer, s) \<Rightarrow>
        if top_level s
        then (case pack_tlas K geoms st of Inl e \<Rightarrow> Inl (e, s) | Inr st' \<Rightarrow> Inr st')
        else (case pack_blas K geoms s of
                Inl es \<Rightarrow> Inl es
              | Inr s' \<Rightarrow> Inr (device_verts_pointer, s')))"

definition refit_nodes :: "BVHOptiX \<Rightarrow> BVHOptiX" where
  "refit_nodes s = s\<lparr>do_refit := True\<rparr>"

subsection \<open>An instance of the parameters\<close>

text \<open>
  One choice of the parameters, used to evaluate the functions at concrete inputs. The
  type tags are single bits and \<^verbatim>\<open>PRIMITIVE_PACK_SEGMENT\<close> shifts the segment index
  above them, as Cycles' kernel does; the tracing visibility is the visibility field;
  fresh cells hold zero; \<^verbatim>\<open>pack_primitives\<close> gives every triangle slot three vertices
  (and every curve slot the index -1) and every slot the visibility of the owning
  object; the device refuses an empty BVH.
\<close>

definition sample_pack_primitives ::
  "geom_store \<Rightarrow> BVHOptiX \<Rightarrow> (uint list \<times> float4 list \<times> uint list) option" where
  "sample_pack_primitives geoms s =
     (let types = prim_type (pack s);
          tris = (\<lambda>ts. length (filter (\<lambda>t. t AND 3 \<noteq> 0) ts))
      in Some (map (\<lambda>i. if types ! i AND 3 \<noteq> 0 then 3 * word_of_nat (tris (take i types)) else - 1)
                 [0..<length types],
               replicate (3 * tris types) (make_float4 0 0 0 0),
               map (\<lambda>t. visibility (objects s ! 0)) types))"

definition sample_env :: env where
  "sample_env =
     \<lparr>PRIMITIVE_TRIANGLE = 1, PRIMITIVE_MOTION_TRIANGLE = 2,
      PRIMITIVE_CURVE_THICK = 4, PRIMITIVE_MOTION_CURVE_THICK = 8,
      PRIMITIVE_CURVE_RIBBON = 16, PRIMITIVE_MOTION_CURVE_RIBBON = 32,
      PRIMITIVE_ALL_CURVE = 60,
      PRIMITIVE_PACK_SEGMENT = (\<lambda>type segment. push_bit 6 (word_of_nat segment) OR type),
      visibility_for_tracing = visibility,
      uninitialized = (\<lambda>i. 0),
      uninitialized_verts = (\<lambda>i. make_float4 0 0 0 0),
      pack_primitives = sample_pack_primitives,
      build_optix_bvh = (\<lambda>s. prim_index (pack s) \<noteq> [])\<rparr>"

definition empty_pack :: PackedBVH where
  "empty_pack = \<lparr>prim_type = [], prim_index = [], prim_object = [],
                  prim_visibility = [], prim_tri_index = [], prim_tri_verts = []\<rparr>"

text \<open>A mesh of two triangles and a hair of two curves with three and one segments.\<close>

definition sample_mesh :: Geometry where
  "sample_mesh =
     \<lparr>geometry_type = MESH, use_motion_blur = False, attr_motion_vertex_position = False,
      num_triangles = 2, curve_num_segments = [], curve_shape = CURVE_RIBBON,
      prim_offset = 0, is_modified = True, triangles_is_modified = True,
      is_instanced = True, bvh_pack = empty_pack\<rparr>"

definition sample_hair :: Geometry where
  "sample_hair =
     \<lparr>geometry_type = HAIR, use_motion_blur = False, attr_motion_vertex_position = False,
      num_triangles = 0, curve_num_segments = [3, 1], curve_shape = CURVE_THICK,
      prim_offset = 0, is_modified = True, triangles_is_modified = False,
      is_instanced = True, bvh_pack = empty_pack\<rparr>"

definition sample_object :: Object where
  "sample_object =
     \<lparr>ob_geometry = 0, visibility = 5, visibility_is_modified = False,
      is_shadow_catcher_is_modified = False, device_index = 0\<rparr>"

text \<open>A bottom-level BVH over the geometry at address 0, not packed yet.\<close>

definition sample_blas :: BVHOptiX where
  "sample_blas =
     \<lparr>top_level = False, pack_all_data = False, geometry = [0], objects = [sample_object],
      pack = empty_pack, do_refit = False\<rparr>"

definition sample_motion_mesh :: Geometry where
  "sample_motion_mesh =
     sample_mesh\<lparr>geometry_type := VOLUME, use_motion_blur := True,
                 attr_motion_vertex_position := True\<rparr>"

text \<open>
  Two more choices of \<^verbatim>\<open>pack_primitives\<close>: one that answers only when the owning
  object's visibility is zero and throws otherwise, and one that always throws.
\<close>

definition zero_only :: "(geom_store \<Rightarrow> BVHOptiX \<Rightarrow> (uint list \<times> float4 list \<times> uint list) option) \<Rightarrow>
    geom_store \<Rightarrow> BVHOptiX \<Rightarrow> (uint list \<times> float4 list \<times> uint list) option" where
  "zero_only pp geoms s = (if visibility (objects s ! 0) = 0 then pp geoms s else None)"

definition throwing_env :: env where
  "throwing_env = sample_env\<lparr>pack_primitives := \<lambda>geoms s. None\<rparr>"

subsection \<open>Closed forms used in the proofs\<close>

text \<open>
  What the two loops over a hair append: the owning curve of every segment, and the
  tag of every segment, curve after curve.
\<close>

fun curve_owners :: "nat \<Rightarrow> nat list \<Rightarrow> cint list" where
  "curve_owners j [] = []"
| "curve_owners j (n # ns) = replicate n (word_of_nat j) @ curve_owners (Suc j) ns"

fun curve_tags :: "env \<Rightarrow> uint \<Rightarrow> nat list \<Rightarrow> cint list" where
  "curve_tags K type [] = []"
| "curve_tags K type (n # ns) =
     map (PRIMITIVE_PACK_SEGMENT K type) [0..<n] @ curve_tags K type ns"

text \<open>
  Lines 73 to 121 of \<^verbatim>\<open>pack_blas\<close> on the pack, and the state in which line 128
  calls \<^verbatim>\<open>pack_primitives\<close>.
\<close>

definition pack_blas_prims :: "env \<Rightarrow> Geometry \<Rightarrow> PackedBVH \<Rightarrow> PackedBVH" where
  "pack_blas_prims K geom p =
     (if geometry_type geom = HAIR then pack_blas_hair K geom p else pack_blas_mesh K geom p)"

definition zeroed :: "env \<Rightarrow> geom_store \<Rightarrow> BVHOptiX \<Rightarrow> BVHOptiX" where
  "zeroed K geoms s =
     s\<lparr>pack := pack_blas_prims K (geoms (geometry s ! 0)) (pack s),
       objects := (objects s)[0 := set_visibility 0 (objects s ! 0)]\<rparr>"

text \<open>
  The sizes that \<^verbatim>\<open>pack_tlas\<close> reads from the bottom-level pack of a geometry.
\<close>

definition slots :: "geom_store \<Rightarrow> geom_ptr \<Rightarrow> nat" where
  "slots geoms g = length (prim_index (bvh_pack (geoms g)))"

definition verts :: "geom_store \<Rightarrow> geom_ptr \<Rightarrow> nat" where
  "verts geoms g = length (prim_tri_verts (bvh_pack (geoms g)))"

text \<open>
  The pool as a function of the geometry list: \<open>scheduled\<close> is the test of line 184,
  \<open>bound_task\<close> the task that lines 185 to 193 bind for a geometry at given offsets,
  \<open>tasks_from\<close> the tasks pushed for a list of geometries from given offsets on.
\<close>

definition scheduled :: "geom_store \<Rightarrow> BVHOptiX \<Rightarrow> geom_ptr \<Rightarrow> bool" where
  "scheduled geoms s g \<longleftrightarrow> is_modified (geoms g) \<or> pack_all_data s"

definition bound_task :: "env \<Rightarrow> geom_store \<Rightarrow> BVHOptiX \<Rightarrow> geom_ptr \<Rightarrow> nat \<Rightarrow> nat \<Rightarrow> Task" where
  "bound_task K geoms s g off voff =
     (case scan_objects K g (geoms g) (objects s) (0, 0, False) of
        (object_index, object_visibility, visibility_modified) \<Rightarrow>
          \<lparr>task_geom = g, task_pack_offset = off, task_pack_verts_offset = voff,
           task_object_index = object_index, task_object_visibility = object_visibility,
           task_force_pack = pack_all_data s,
           task_visibility_modified = visibility_modified\<rparr>)"

fun tasks_from :: "env \<Rightarrow> geom_store \<Rightarrow> BVHOptiX \<Rightarrow> geom_ptr list \<Rightarrow> nat \<Rightarrow> nat \<Rightarrow> Task list" where
  "tasks_from K geoms s [] off voff = []"
| "tasks_from K geoms s (g # gs) off voff =
     (if scheduled geoms s g then [bound_task K geoms s g off voff] else []) @
     tasks_from K geoms s gs (off + slots geoms g) (voff + verts geoms g)"

text \<open>
  The running offsets \<open>(pack_offset, pack_verts_offset)\<close> when the loop of \<^verbatim>\<open>pack_tlas\<close>
  reaches position \<open>i\<close> of the geometry list, that is the state of the loop after the
  \<open>i\<close> geometries before it. They are the offsets bound to the task of that geometry;
  its slots are the \<open>prim_index\<close> size of its bottom-level pack from the first offset
  on, its vertices the \<open>prim_tri_verts\<close> size from the second.
\<close>

definition offsets_at :: "env \<Rightarrow> geom_store \<Rightarrow> BVHOptiX \<Rightarrow> nat \<Rightarrow> nat \<times> nat" where
  "offsets_at K geoms s i =
     (case pack_tlas_loop K geoms s (take i (geometry s)) (\<lambda>g. 0, 0, 0, []) of
        (device_verts_pointer, pack_offset, pack_verts_offset, pool) \<Rightarrow>
          (pack_offset, pack_verts_offset))"

text \<open>
  A bottom-level pack whose accesses by \<^verbatim>\<open>pack_instance\<close> stay in range has as many type
  tags and triangle indices as primitive indices; \<open>sized\<close> gives the lengths of the
  arrays of the scene pack.
\<close>

definition pack_wf :: "PackedBVH \<Rightarrow> bool" where
  "pack_wf src \<longleftrightarrow> length (prim_type src) = length (prim_index src) \<and>
                  length (prim_tri_index src) = length (prim_index src)"

definition sized :: "nat \<Rightarrow> nat \<Rightarrow> PackedBVH \<Rightarrow> bool" where
  "sized L LV p \<longleftrightarrow> length (prim_type p) = L \<and> length (prim_index p) = L \<and>
     length (prim_object p) = L \<and> length (prim_visibility p) = L \<and>
     length (prim_tri_index p) = L \<and> length (prim_tri_verts p) = LV"

text \<open>
  What a task leaves in the scene pack when all its accesses are in range:
  \<open>overwrite\<close> replaces the elements from an offset on, \<open>prims_have_changed\<close> is the
  flag of lines 233 to 243, \<open>merged\<close> the pack after \<^verbatim>\<open>pack_instance\<close>, and \<open>task_ok\<close>
  says that the slots and vertices of a task lie inside arrays of the given lengths.
\<close>

definition overwrite :: "'a list \<Rightarrow> nat \<Rightarrow> 'a list \<Rightarrow> 'a list" where
  "overwrite dst off new = take off dst @ new @ drop (off + length new) dst"

definition merged_tri_index :: "env \<Rightarrow> PackedBVH \<Rightarrow> nat \<Rightarrow> nat \<Rightarrow> uint" where
  "merged_tri_index K src voff i =
     (if prim_type src ! i AND PRIMITIVE_ALL_CURVE K \<noteq> 0 then - 1
      else prim_tri_index src ! i + word_of_nat voff)"

definition prims_have_changed :: "Geometry \<Rightarrow> Task \<Rightarrow> bool" where
  "prims_have_changed geom t \<longleftrightarrow>
     (is_mesh geom \<longrightarrow> triangles_is_modified geom \<or> task_force_pack t) \<or>
     task_visibility_modified t"

definition merged :: "env \<Rightarrow> geom_store \<Rightarrow> Task \<Rightarrow> PackedBVH \<Rightarrow> PackedBVH" where
  "merged K geoms t p =
     (let geom = geoms (task_geom t); src = bvh_pack geom; n = length (prim_index src);
          off = task_pack_offset t; voff = task_pack_verts_offset t;
          p1 = (if prims_have_changed geom t
                then p\<lparr>prim_index := overwrite (prim_index p) off
                                       (map (\<lambda>i. prim_index src ! i + prim_offset geom) [0..<n]),
                       prim_tri_index := overwrite (prim_tri_index p) off
                                       (map (merged_tri_index K src voff) [0..<n]),
                       prim_type := overwrite (prim_type p) off (map (\<lambda>i. prim_type src ! i) [0..<n]),
                       prim_object := overwrite (prim_object p) off
                                       (map (\<lambda>i. task_object_index t) [0..<n]),
                       prim_visibility := overwrite (prim_visibility p) off
                                       (map (\<lambda>i. task_object_visibility t) [0..<n])\<rparr>
                else p)
      in p1\<lparr>prim_tri_verts := overwrite (prim_tri_verts p1) voff (prim_tri_verts src)\<rparr>)"

definition task_ok :: "geom_store \<Rightarrow> nat \<Rightarrow> nat \<Rightarrow> Task \<Rightarrow> bool" where
  "task_ok geoms L LV t \<longleftrightarrow>
     pack_wf (bvh_pack (geoms (task_geom t))) \<and>
     task_pack_offset t + slots geoms (task_geom t) \<le> L \<and>
     task_pack_verts_offset t + verts geoms (task_geom t) \<le> LV"

subsection \<open>A sample scene\<close>

text \<open>
  The sample mesh and hair with the bottom-level packs that \<^verbatim>\<open>pack_blas\<close> gives them
  (the hair's primitives start at 2 in the scene), at addresses 0 and 1; objects A and
  B use the mesh, object C the hair; the top-level BVH is built for the first time,
  with \<^verbatim>\<open>pack_all_data\<close> set.
\<close>

definition tlas_mesh :: Geometry where
  "tlas_mesh =
     sample_mesh\<lparr>bvh_pack :=
       \<lparr>prim_type = [1, 1], prim_index = [0, 1], prim_object = [],
        prim_visibility = [0, 0], prim_tri_index = [0, 3],
        prim_tri_verts = [make_float4 1 0 0 0, make_float4 2 0 0 0, make_float4 3 0 0 0,
                          make_float4 4 0 0 0, make_float4 5 0 0 0, make_float4 6 0 0 0]\<rparr>\<rparr>"

definition tlas_hair :: Geometry where
  "tlas_hair =
     sample_hair\<lparr>prim_offset := 2, bvh_pack :=
       \<lparr>prim_type = [4, 68, 132, 4], prim_index = [0, 0, 0, 1], prim_object = [0, 0, 0, 0],
        prim_visibility = [0, 0, 0, 0], prim_tri_index = [- 1, - 1, - 1, - 1],
        prim_tri_verts = []\<rparr>\<rparr>"

definition sample_geoms :: geom_store where
  "sample_geoms = (\<lambda>a. if a = 0 then tlas_mesh else tlas_hair)"

definition object_A :: Object where
  "object_A = \<lparr>ob_geometry = 0, visibility = 1, visibility_is_modified = False,
               is_shadow_catcher_is_modified = False, device_index = 10\<rparr>"

definition object_B :: Object where
  "object_B = \<lparr>ob_geometry = 0, visibility = 2, visibility_is_modified = False,
               is_shadow_catcher_is_modified = False, device_index = 11\<rparr>"

definition object_C :: Object where
  "object_C = \<lparr>ob_geometry = 1, visibility = 4, visibility_is_modified = False,
               is_shadow_catcher_is_modified = False, device_index = 12\<rparr>"

definition sample_tlas :: BVHOptiX where
  "sample_tlas =
     \<lparr>top_level = True, pack_all_data = True, geometry = [0, 1],
      objects = [object_A, object_B, object_C], pack = empty_pack, do_refit = False\<rparr>"

text \<open>
  The scene after its first build, and later builds on it: with no geometry marked
  modified (\<open>rerun_tlas\<close>), after the visibility of object A changed
  (\<open>revisited_tlas\<close>), and after every geometry was removed (\<open>stale_tlas\<close>). In
  \<open>two_users_tlas\<close> the mesh has lost its instancing flag although A and B both use
  it.
\<close>

definition packed_tlas :: BVHOptiX where
  "packed_tlas = snd (projr (pack_tlas sample_env sample_geoms (\<lambda>g. 0, sample_tlas)))"

definition unmodified_geoms :: geom_store where
  "unmodified_geoms = (\<lambda>a. (sample_geoms a)\<lparr>is_modified := False, triangles_is_modified := False\<rparr>)"

definition rerun_tlas :: BVHOptiX where
  "rerun_tlas = packed_tlas\<lparr>pack_all_data := False\<rparr>"

definition revisited_tlas :: BVHOptiX where
  "revisited_tlas =
     packed_tlas\<lparr>pack_all_data := False,
                 objects := [object_A\<lparr>visibility := 4, visibility_is_modified := True\<rparr>,
                             object_B, object_C]\<rparr>"

definition stale_tlas :: BVHOptiX where
  "stale_tlas = packed_tlas\<lparr>pack_all_data := False, geometry := []\<rparr>"

definition single_user_geoms :: geom_store where
  "single_user_geoms = (\<lambda>a. tlas_mesh\<lparr>is_instanced := False\<rparr>)"

definition two_users_tlas :: BVHOptiX where
  "two_users_tlas = sample_tlas\<lparr>geometry := [0], objects := [object_A, object_B]\<rparr>"

text \<open>Two tasks, for the hair and for the mesh, and a scene pack of six blank slots.\<close>

definition sample_task :: Task where
  "sample_task =
     \<lparr>task_geom = 1, task_pack_offset = 2, task_pack_verts_offset = 6,
      task_object_index = 7, task_object_visibility = 4, task_force_pack = False,
      task_visibility_modified = False\<rparr>"

definition mesh_task :: Task where
  "mesh_task =
     \<lparr>task_geom = 0, task_pack_offset = 0, task_pack_verts_offset = 0,
      task_object_index = 7, task_object_visibility = 3, task_force_pack = True,
      task_visibility_modified = False\<rparr>"

definition blank_pack :: PackedBVH where
  "blank_pack =
     \<lparr>prim_type = replicate 6 0, prim_index = replicate 6 0, prim_object = replicate 6 0,
      prim_visibility = replicate 6 0, prim_tri_index = replicate 6 0,
      prim_tri_verts = replicate 6 (make_float4 0 0 0 0)\<rparr>"

section \<open>Properties\<close>

subsection \<open>Arrays and the loops of the bottom-level packer\<close>

lemma sint_word_of_nat:
  "k < 2 ^ 31 \<Longrightarrow> sint (word_of_nat k :: 32 word) = int k"
  by (simp add: signed_of_nat signed_take_bit_int_eq_self)

lemma length_resize: "length (resize junk n a) = n"
  by (simp add: resize_def)

lemma resize_same: "length a = n \<Longrightarrow> resize junk n a = a"
  by (simp add: resize_def)

lemma fold_list_update_upt:
  "m \<le> length a \<Longrightarrow> fold (\<lambda>k a. a[k := f k]) [0..<m] a = map f [0..<m] @ drop m a"
proof (induction m)
  case 0
  then show ?case by simp
next
  case (Suc m)
  then have "fold (\<lambda>k a. a[k := f k]) [0..<Suc m] a = (map f [0..<m] @ drop m a)[m := f m]"
    by simp
  also have "\<dots> = map f [0..<m] @ (drop m a)[0 := f m]"
    by (simp add: list_update_append)
  also have "(drop m a)[0 := f m] = f m # drop (Suc m) a"
    using Suc.prems by (cases "drop m a") (auto simp: drop_Suc drop_tl)
  finally show ?case by simp
qed

lemma fold_list_update_all:
  "length a = n \<Longrightarrow> fold (\<lambda>k a. a[k := f k]) [0..<n] a = map f [0..<n]"
  by (simp add: fold_list_update_upt)

lemma pack_blas_mesh_prim_type:
  "0 < num_triangles mesh \<Longrightarrow>
   prim_type (pack_blas_mesh K mesh p) = replicate (num_triangles mesh) (mesh_type K mesh)"
  by (simp add: pack_blas_mesh_def Let_def fold_list_update_all length_resize map_replicate_const)

lemma pack_blas_mesh_prim_index:
  "0 < num_triangles mesh \<Longrightarrow>
   prim_index (pack_blas_mesh K mesh p) = map word_of_nat [0..<num_triangles mesh]"
  by (simp add: pack_blas_mesh_def Let_def fold_list_update_all length_resize)

lemma pack_blas_mesh_prim_object:
  "prim_object (pack_blas_mesh K mesh p) = prim_object p"
  by (simp add: pack_blas_mesh_def Let_def)

lemma pack_curve_segments_eq:
  "pack_curve_segments K type j ks p =
     p\<lparr>prim_type := prim_type p @ map (PRIMITIVE_PACK_SEGMENT K type) ks,
       prim_index := prim_index p @ replicate (length ks) (word_of_nat j),
       prim_object := prim_object p @ replicate (length ks) 0\<rparr>"
  by (induction ks arbitrary: p) (simp_all add: replicate_app_Cons_same)

lemma pack_curves_eq:
  "pack_curves K type ns j p =
     p\<lparr>prim_type := prim_type p @ curve_tags K type ns,
       prim_index := prim_index p @ curve_owners j ns,
       prim_object := prim_object p @ replicate (sum_list ns) 0\<rparr>"
  by (induction ns arbitrary: j p) (simp_all add: pack_curve_segments_eq replicate_add)

lemma length_curve_owners: "length (curve_owners j ns) = sum_list ns"
  by (induction ns arbitrary: j) simp_all

lemma length_curve_tags: "length (curve_tags K type ns) = sum_list ns"
  by (induction ns) simp_all

lemma curve_owners_nth:
  "c < length ns \<Longrightarrow> k < ns ! c \<Longrightarrow>
   curve_owners j ns ! (sum_list (take c ns) + k) = word_of_nat (j + c)"
proof (induction ns arbitrary: j c)
  case Nil
  then show ?case by simp
next
  case (Cons n ns)
  show ?case
  proof (cases c)
    case 0
    with Cons.prems show ?thesis by (simp add: nth_append)
  next
    case (Suc c')
    with Cons.prems have "curve_owners (Suc j) ns ! (sum_list (take c' ns) + k) = word_of_nat (Suc j + c')"
      by (intro Cons.IH) simp_all
    with Suc show ?thesis by (simp add: nth_append)
  qed
qed

lemma curve_tags_nth:
  "c < length ns \<Longrightarrow> k < ns ! c \<Longrightarrow>
   curve_tags K type ns ! (sum_list (take c ns) + k) = PRIMITIVE_PACK_SEGMENT K type k"
proof (induction ns arbitrary: c)
  case Nil
  then show ?case by simp
next
  case (Cons n ns)
  show ?case
  proof (cases c)
    case 0
    with Cons.prems show ?thesis by (simp add: nth_append)
  next
    case (Suc c')
    with Cons.prems have "curve_tags K type ns ! (sum_list (take c' ns) + k) = PRIMITIVE_PACK_SEGMENT K type k"
      by (intro Cons.IH) simp_all
    with Suc show ?thesis by (simp add: nth_append)
  qed
qed

lemma segment_slot_bound:
  "c < length ns \<Longrightarrow> k < ns ! c \<Longrightarrow> sum_list (take c ns) + k < sum_list (ns::nat list)"
proof (induction ns arbitrary: c)
  case Nil
  then show ?case by simp
next
  case (Cons n ns)
  then show ?case by (cases c) auto
qed

lemma pack_blas_hair_eq:
  "curve_num_segments hair \<noteq> [] \<Longrightarrow>
   pack_blas_hair K hair p =
     p\<lparr>prim_type := prim_type p @ curve_tags K (hair_type K hair) (curve_num_segments hair),
       prim_index := prim_index p @ curve_owners 0 (curve_num_segments hair),
       prim_object := prim_object p @ replicate (sum_list (curve_num_segments hair)) 0\<rparr>"
  by (simp add: pack_blas_hair_def pack_curves_eq)

lemma pack_blas_eq:
  assumes "length (geometry s) = 1" "length (objects s) = 1"
  shows "pack_blas K geoms s =
           (case pack_primitives K geoms (zeroed K geoms s) of
              None \<Rightarrow> Inl (PackPrimitivesThrew, zeroed K geoms s)
            | Some (tri_index, tri_verts, vis) \<Rightarrow>
                Inr (s\<lparr>pack := (pack_blas_prims K (geoms (geometry s ! 0)) (pack s))
                              \<lparr>prim_tri_index := tri_index, prim_tri_verts := tri_verts,
                               prim_visibility := vis\<rparr>\<rparr>))"
proof -
  obtain ob where ob: "objects s = [ob]"
    using assms(2) by (cases "objects s") auto
  have restore: "set_visibility (visibility ob) (set_visibility 0 ob) = ob"
    by (simp add: set_visibility_def)
  show ?thesis
    using assms ob restore
    by (cases "geometry_type (geoms (geometry s ! 0))")
       (simp_all add: pack_blas_def zeroed_def pack_blas_prims_def Let_def
          split: option.splits)
qed

lemma pack_blas_state_of:
  assumes "length (geometry s) = 1" "length (objects s) = 1"
  shows "prim_type (pack (state_of (pack_blas K geoms s))) =
           prim_type (pack_blas_prims K (geoms (geometry s ! 0)) (pack s))"
    and "prim_index (pack (state_of (pack_blas K geoms s))) =
           prim_index (pack_blas_prims K (geoms (geometry s ! 0)) (pack s))"
    and "prim_object (pack (state_of (pack_blas K geoms s))) =
           prim_object (pack_blas_prims K (geoms (geometry s ! 0)) (pack s))"
    and "geometry (state_of (pack_blas K geoms s)) = geometry s"
    and "length (objects (state_of (pack_blas K geoms s))) = 1"
  using assms
  by (simp_all add: pack_blas_eq state_of_def zeroed_def split: option.splits)


subsection \<open>The bottom-level packer\<close>

text \<open>
  Claim C1. For a mesh or volume geometry with \<open>N > 0\<close> triangles, \<^verbatim>\<open>pack_blas\<close> leaves
  exactly \<open>N\<close> slots in \<open>prim_type\<close> and \<open>prim_index\<close>; every slot carries the same
  type tag, \<^verbatim>\<open>PRIMITIVE_MOTION_TRIANGLE\<close> when motion blur is enabled and the motion
  vertex attribute is present and \<^verbatim>\<open>PRIMITIVE_TRIANGLE\<close> otherwise; and slot \<open>k\<close> of
  \<open>prim_index\<close> holds \<open>k\<close> (as the \<^verbatim>\<open>int\<close> that \<open>k\<close> converts to, which reads back as
  \<open>k\<close> below \<open>2^31\<close>). This holds whether \<^verbatim>\<open>pack_primitives\<close> returns or throws.
\<close>

theorem C1_pack_blas_triangles:
  assumes "length (geometry s) = 1" and "length (objects s) = 1"
    and "geometry_type (geoms (geometry s ! 0)) = MESH \<or>
         geometry_type (geoms (geometry s ! 0)) = VOLUME"
    and "0 < num_triangles (geoms (geometry s ! 0))"
  shows "let mesh = geoms (geometry s ! 0); N = num_triangles mesh;
             p = pack (state_of (pack_blas K geoms s))
         in length (prim_type p) = N \<and> length (prim_index p) = N \<and>
            (\<forall>k<N. prim_type p ! k =
               (if use_motion_blur mesh \<and> attr_motion_vertex_position mesh
                then PRIMITIVE_MOTION_TRIANGLE K else PRIMITIVE_TRIANGLE K)) \<and>
            (\<forall>k<N. prim_index p ! k = word_of_nat k) \<and>
            (\<forall>k<N. k < 2 ^ 31 \<longrightarrow> sint (prim_index p ! k) = int k)"
proof -
  have prims: "pack_blas_prims K (geoms (geometry s ! 0)) (pack s) =
      pack_blas_mesh K (geoms (geometry s ! 0)) (pack s)"
    using assms(3) by (auto simp: pack_blas_prims_def)
  show ?thesis
    using assms(4)
    by (simp add: Let_def pack_blas_state_of [OF assms(1,2)] prims
        pack_blas_mesh_prim_type pack_blas_mesh_prim_index mesh_type_def sint_word_of_nat)
qed

text \<open>The two triangles of the sample mesh, without and with motion blur.\<close>

theorem C1_pack_blas_triangles_witness:
  "(let p = pack (state_of (pack_blas sample_env (\<lambda>a. sample_mesh) sample_blas))
    in length (prim_type p) = 2 \<and> length (prim_index p) = 2 \<and>
       prim_type p ! 1 = 1 \<and> prim_index p ! 1 = 1 \<and> sint (prim_index p ! 1) = 1) \<and>
   (let p = pack (state_of (pack_blas sample_env (\<lambda>a. sample_motion_mesh) sample_blas))
    in length (prim_type p) = 2 \<and> prim_type p ! 1 = 2 \<and> prim_index p ! 1 = 1)"
proof -
  have len: "length (geometry sample_blas) = 1" "length (objects sample_blas) = 1"
    by (simp_all add: sample_blas_def)
  have 1: "geometry_type ((\<lambda>a. sample_mesh) (geometry sample_blas ! 0)) = MESH \<or>
           geometry_type ((\<lambda>a. sample_mesh) (geometry sample_blas ! 0)) = VOLUME"
    and 2: "0 < num_triangles ((\<lambda>a. sample_mesh) (geometry sample_blas ! 0))"
    by (simp_all add: sample_mesh_def)
  have 3: "geometry_type ((\<lambda>a. sample_motion_mesh) (geometry sample_blas ! 0)) = MESH \<or>
           geometry_type ((\<lambda>a. sample_motion_mesh) (geometry sample_blas ! 0)) = VOLUME"
    and 4: "0 < num_triangles ((\<lambda>a. sample_motion_mesh) (geometry sample_blas ! 0))"
    by (simp_all add: sample_motion_mesh_def sample_mesh_def)
  have one: "(1::nat) < 2" by simp
  show ?thesis
    using C1_pack_blas_triangles [OF len 1 2, of sample_env]
          C1_pack_blas_triangles [OF len 3 4, of sample_env] one
    by (simp add: Let_def sample_mesh_def sample_motion_mesh_def sample_env_def)
qed

text \<open>
  Claim C2. For a hair geometry with at least one curve, \<^verbatim>\<open>pack_blas\<close> produces one slot
  per curve segment: \<open>prim_type\<close>, \<open>prim_index\<close> and \<open>prim_object\<close> grow by the sum of
  the per-curve segment counts (so they hold exactly that many slots when the pack was
  empty). The slot of segment \<open>k\<close> of curve \<open>j\<close> comes after the slots of the curves
  before \<open>j\<close>; its \<open>prim_index\<close> is the curve index \<open>j\<close>, its \<open>prim_object\<close> is 0, and its
  \<open>prim_type\<close> is \<^verbatim>\<open>PRIMITIVE_PACK_SEGMENT\<close> of the base type (ribbon or thick, motion
  or not) and \<open>k\<close>.
\<close>

theorem C2_pack_blas_curve_segments:
  assumes "length (geometry s) = 1" and "length (objects s) = 1"
    and "geometry_type (geoms (geometry s ! 0)) = HAIR"
    and "curve_num_segments (geoms (geometry s ! 0)) \<noteq> []"
  shows "let hair = geoms (geometry s ! 0); ns = curve_num_segments hair;
             p = pack s; p' = pack (state_of (pack_blas K geoms s));
             type = (if use_motion_blur hair \<and> attr_motion_vertex_position hair
                     then (if curve_shape hair = CURVE_RIBBON
                           then PRIMITIVE_MOTION_CURVE_RIBBON K
                           else PRIMITIVE_MOTION_CURVE_THICK K)
                     else (if curve_shape hair = CURVE_RIBBON
                           then PRIMITIVE_CURVE_RIBBON K
                           else PRIMITIVE_CURVE_THICK K))
         in length (prim_type p') = length (prim_type p) + sum_list ns \<and>
            length (prim_index p') = length (prim_index p) + sum_list ns \<and>
            length (prim_object p') = length (prim_object p) + sum_list ns \<and>
            (\<forall>j<length ns. \<forall>k<ns ! j.
               prim_type p' ! (length (prim_type p) + sum_list (take j ns) + k) =
                 PRIMITIVE_PACK_SEGMENT K type k \<and>
               prim_index p' ! (length (prim_index p) + sum_list (take j ns) + k) =
                 word_of_nat j \<and>
               prim_object p' ! (length (prim_object p) + sum_list (take j ns) + k) = 0)"
proof -
  let ?hair = "geoms (geometry s ! 0)"
  let ?ns = "curve_num_segments ?hair"
  have prims: "pack_blas_prims K ?hair (pack s) =
      (pack s)\<lparr>prim_type := prim_type (pack s) @ curve_tags K (hair_type K ?hair) ?ns,
               prim_index := prim_index (pack s) @ curve_owners 0 ?ns,
               prim_object := prim_object (pack s) @ replicate (sum_list ?ns) 0\<rparr>"
    using assms(3,4) by (simp add: pack_blas_prims_def pack_blas_hair_eq)
  have slots: "curve_tags K (hair_type K ?hair) ?ns ! (sum_list (take j ?ns) + k) =
                 PRIMITIVE_PACK_SEGMENT K (hair_type K ?hair) k \<and>
               curve_owners 0 ?ns ! (sum_list (take j ?ns) + k) = word_of_nat j \<and>
               replicate (sum_list ?ns) (0::cint) ! (sum_list (take j ?ns) + k) = 0"
    if "j < length ?ns" "k < ?ns ! j" for j k
    using that by (simp add: curve_tags_nth curve_owners_nth segment_slot_bound)
  show ?thesis
    unfolding Let_def pack_blas_state_of [OF assms(1,2)] prims
    using slots
    by (simp add: length_curve_tags length_curve_owners add.assoc hair_type_def)
qed

text \<open>The sample hair: curve 0 has three segments, curve 1 has one.\<close>

theorem C2_pack_blas_curve_segments_witness:
  "(let p' = pack (state_of (pack_blas sample_env (\<lambda>a. sample_hair) sample_blas))
    in length (prim_index p') = 4 \<and>
       prim_index p' ! 2 = 0 \<and> prim_object p' ! 2 = 0 \<and> prim_type p' ! 2 = 132 \<and>
       prim_index p' ! 3 = 1 \<and> prim_object p' ! 3 = 0 \<and> prim_type p' ! 3 = 4)"
proof -
  have len: "length (geometry sample_blas) = 1" "length (objects sample_blas) = 1"
    by (simp_all add: sample_blas_def)
  have 1: "geometry_type ((\<lambda>a. sample_hair) (geometry sample_blas ! 0)) = HAIR"
    and 2: "curve_num_segments ((\<lambda>a. sample_hair) (geometry sample_blas ! 0)) \<noteq> []"
    by (simp_all add: sample_hair_def)
  have ks: "(0::nat) < 2" "(2::nat) < 3" "(1::nat) < 2" "(0::nat) < 1" by simp_all
  have "\<forall>j<2. \<forall>k<[3, 1::nat] ! j.
          prim_type (pack (state_of (pack_blas sample_env (\<lambda>a. sample_hair) sample_blas))) !
            (sum_list (take j [3, 1]) + k) = push_bit 6 (word_of_nat k) OR 4 \<and>
          prim_index (pack (state_of (pack_blas sample_env (\<lambda>a. sample_hair) sample_blas))) !
            (sum_list (take j [3, 1]) + k) = word_of_nat j \<and>
          prim_object (pack (state_of (pack_blas sample_env (\<lambda>a. sample_hair) sample_blas))) !
            (sum_list (take j [3, 1]) + k) = 0"
     and L: "length (prim_index (pack (state_of (pack_blas sample_env (\<lambda>a. sample_hair) sample_blas)))) = 4"
    using C2_pack_blas_curve_segments [OF len 1 2, of sample_env]
    by (simp_all add: Let_def sample_hair_def sample_env_def sample_blas_def empty_pack_def)
  then have "\<forall>k<[3, 1::nat] ! 0. 
          prim_type (pack (state_of (pack_blas sample_env (\<lambda>a. sample_hair) sample_blas))) !
            (sum_list (take 0 [3, 1]) + k) = push_bit 6 (word_of_nat k) OR 4 \<and>
          prim_index (pack (state_of (pack_blas sample_env (\<lambda>a. sample_hair) sample_blas))) !
            (sum_list (take 0 [3, 1]) + k) = word_of_nat 0 \<and>
          prim_object (pack (state_of (pack_blas sample_env (\<lambda>a. sample_hair) sample_blas))) !
            (sum_list (take 0 [3, 1]) + k) = 0"
     and "\<forall>k<[3, 1::nat] ! 1. 
          prim_type (pack (state_of (pack_blas sample_env (\<lambda>a. sample_hair) sample_blas))) !
            (sum_list (take 1 [3, 1]) + k) = push_bit 6 (word_of_nat k) OR 4 \<and>
          prim_index (pack (state_of (pack_blas sample_env (\<lambda>a. sample_hair) sample_blas))) !
            (sum_list (take 1 [3, 1]) + k) = word_of_nat 1 \<and>
          prim_object (pack (state_of (pack_blas sample_env (\<lambda>a. sample_hair) sample_blas))) !
            (sum_list (take 1 [3, 1]) + k) = 0"
    using ks by blast+
  then show ?thesis
    using L ks by (simp add: Let_def)
qed

lemma curve_tags_pack_primitives_update [simp]:
  "curve_tags (K\<lparr>pack_primitives := pp\<rparr>) type ns = curve_tags K type ns"
  by (induction ns) simp_all

lemma pack_blas_prims_pack_primitives_update [simp]:
  "pack_blas_prims (K\<lparr>pack_primitives := pp\<rparr>) geom p = pack_blas_prims K geom p"
  by (simp add: pack_blas_prims_def pack_blas_hair_def pack_curves_eq hair_type_def
      pack_blas_mesh_def mesh_type_def)

lemma zeroed_pack_primitives_update [simp]:
  "zeroed (K\<lparr>pack_primitives := pp\<rparr>) geoms s = zeroed K geoms s"
  by (simp add: zeroed_def)

lemma visibility_zeroed:
  "length (objects s) = 1 \<Longrightarrow> visibility (objects (zeroed K geoms s) ! 0) = 0"
  by (simp add: zeroed_def set_visibility_def)

text \<open>
  Claim C8, as amended. In \<^verbatim>\<open>pack_blas\<close> (called with one geometry and one object)
  \<^verbatim>\<open>pack_primitives\<close> is run on the state \<open>t\<close> that lines 73 to 125 leave, in which the
  owning object's visibility is zero, and the outcome of that one call decides the
  outcome of \<^verbatim>\<open>pack_blas\<close>. When \<^verbatim>\<open>pack_primitives\<close> returns on \<open>t\<close>, whatever it wrote,
  \<^verbatim>\<open>pack_blas\<close> returns with the three arrays it gave and with the objects as they
  were before the call, so the visibility has its original value. When
  \<^verbatim>\<open>pack_primitives\<close> throws on \<open>t\<close>, the exception leaves \<^verbatim>\<open>pack_blas\<close> in the state \<open>t\<close>,
  with the visibility still zero: there is no scope guard around the call. What
  \<^verbatim>\<open>pack_primitives\<close> would do on a state with another visibility plays no part.
\<close>

theorem C8_pack_blas_visibility:
  assumes "length (geometry s) = 1" and "length (objects s) = 1"
  shows "let t = zeroed K geoms s
         in visibility (objects t ! 0) = 0 \<and>
            objects t = (objects s)[0 := (objects s ! 0)\<lparr>visibility := 0\<rparr>] \<and>
            pack_blas K geoms s =
              (case pack_primitives K geoms t of
                 None \<Rightarrow> Inl (PackPrimitivesThrew, t)
               | Some (tri_index, tri_verts, vis) \<Rightarrow>
                   Inr (t\<lparr>pack := (pack t)\<lparr>prim_tri_index := tri_index,
                                            prim_tri_verts := tri_verts,
                                            prim_visibility := vis\<rparr>,
                          objects := objects s\<rparr>)) \<and>
            (pack_primitives K geoms t = None \<longrightarrow>
               pack_blas K geoms s = Inl (PackPrimitivesThrew, t) \<and>
               visibility (objects (state_of (pack_blas K geoms s)) ! 0) = 0) \<and>
            (\<forall>r. pack_primitives K geoms t = Some r \<longrightarrow>
               (\<exists>s'. pack_blas K geoms s = Inr s' \<and> objects s' = objects s \<and>
                  visibility (objects s' ! 0) = visibility (objects s ! 0))) \<and>
            ((\<forall>g u. visibility (objects u ! 0) = 0 \<longrightarrow> pp g u = pack_primitives K g u) \<longrightarrow>
               pack_blas (K\<lparr>pack_primitives := pp\<rparr>) geoms s = pack_blas K geoms s) \<and>
            (\<forall>s'. pack_blas K geoms s = Inr s' \<longrightarrow>
               objects s' = objects s \<and>
               visibility (objects s' ! 0) = visibility (objects s ! 0)) \<and>
            (\<forall>e s'. pack_blas K geoms s = Inl (e, s') \<longrightarrow>
               e = PackPrimitivesThrew \<and> pack_primitives K geoms s' = None \<and>
               visibility (objects s' ! 0) = 0)"
proof -
  let ?t = "zeroed K geoms s"
  have vis0: "visibility (objects ?t ! 0) = 0"
    by (rule visibility_zeroed [OF assms(2)])
  have obs: "objects ?t = (objects s)[0 := (objects s ! 0)\<lparr>visibility := 0\<rparr>]"
    by (simp add: zeroed_def set_visibility_def)
  have eq: "pack_blas K geoms s =
      (case pack_primitives K geoms ?t of
         None \<Rightarrow> Inl (PackPrimitivesThrew, ?t)
       | Some (tri_index, tri_verts, vis) \<Rightarrow>
           Inr (?t\<lparr>pack := (pack ?t)\<lparr>prim_tri_index := tri_index,
                                     prim_tri_verts := tri_verts,
                                     prim_visibility := vis\<rparr>,
                   objects := objects s\<rparr>))"
    by (simp add: pack_blas_eq [OF assms] zeroed_def split: option.splits)
  have thrown: "pack_blas K geoms s = Inl (PackPrimitivesThrew, ?t) \<and>
      visibility (objects (state_of (pack_blas K geoms s)) ! 0) = 0"
    if "pack_primitives K geoms ?t = None"
    using that vis0 by (simp add: eq state_of_def)
  have returned: "\<exists>s'. pack_blas K geoms s = Inr s' \<and> objects s' = objects s \<and>
      visibility (objects s' ! 0) = visibility (objects s ! 0)"
    if "pack_primitives K geoms ?t = Some r" for r
    using that by (cases r) (simp add: eq)
  have ext: "pack_blas (K\<lparr>pack_primitives := pp\<rparr>) geoms s = pack_blas K geoms s"
    if "\<forall>g u. visibility (objects u ! 0) = 0 \<longrightarrow> pp g u = pack_primitives K g u"
  proof -
    from that have "pp geoms ?t = pack_primitives K geoms ?t"
      using vis0 by blast
    then show ?thesis
      by (simp add: pack_blas_eq [OF assms] cong: option.case_cong)
  qed
  have on_return: "objects s' = objects s \<and>
      visibility (objects s' ! 0) = visibility (objects s ! 0)"
    if "pack_blas K geoms s = Inr s'" for s'
  proof -
    from that have "objects s' = objects s"
      by (auto simp: pack_blas_eq [OF assms] split: option.splits)
    then show ?thesis by simp
  qed
  have on_throw: "e = PackPrimitivesThrew \<and> pack_primitives K geoms s' = None \<and>
      visibility (objects s' ! 0) = 0"
    if "pack_blas K geoms s = Inl (e, s')" for e s'
  proof -
    from that have "s' = ?t" "e = PackPrimitivesThrew" "pack_primitives K geoms ?t = None"
      by (auto simp: pack_blas_eq [OF assms] split: option.splits)
    then show ?thesis using vis0 by simp
  qed
  show ?thesis
    unfolding Let_def
    using vis0 obs eq thrown returned ext on_return on_throw
    by (intro conjI impI allI) blast+
qed

lemma sample_returns:
  "pack_blas sample_env (\<lambda>a. sample_mesh) sample_blas =
     Inr (sample_blas\<lparr>pack := \<lparr>prim_type = [1, 1], prim_index = [0, 1], prim_object = [],
         prim_visibility = [0, 0], prim_tri_index = [0, 3],
         prim_tri_verts = replicate 6 (make_float4 0 0 0 0)\<rparr>\<rparr>)"
  by (simp add: pack_blas_def sample_blas_def sample_mesh_def sample_env_def empty_pack_def
     sample_object_def set_visibility_def sample_pack_primitives_def Let_def
     pack_blas_mesh_def mesh_type_def resize_def numeral_2_eq_2)

lemma sample_throws:
  "pack_blas throwing_env (\<lambda>a. sample_mesh) sample_blas =
     Inl (PackPrimitivesThrew,
          sample_blas\<lparr>pack := empty_pack\<lparr>prim_type := [1, 1], prim_index := [0, 1]\<rparr>,
                      objects := [sample_object\<lparr>visibility := 0\<rparr>]\<rparr>)"
  by (simp add: pack_blas_def sample_blas_def sample_mesh_def sample_env_def empty_pack_def
     throwing_env_def set_visibility_def Let_def
     pack_blas_mesh_def mesh_type_def resize_def numeral_2_eq_2)

text \<open>
  Claim C8 as stated fails: the restore is not done when the step fails. With a
  \<^verbatim>\<open>pack_primitives\<close> that throws, the sample object's visibility 5 is left at 0.
\<close>

theorem C8_counterexample:
  "isl (pack_blas throwing_env (\<lambda>a. sample_mesh) sample_blas) \<and>
   visibility (objects sample_blas ! 0) = 5 \<and>
   visibility (objects (state_of (pack_blas throwing_env (\<lambda>a. sample_mesh) sample_blas)) ! 0) = 0"
  by (simp add: sample_throws state_of_def) (simp add: sample_blas_def sample_object_def)

text \<open>The sample mesh with a returning and with a throwing \<^verbatim>\<open>pack_primitives\<close>.\<close>

theorem C8_pack_blas_visibility_witness:
  "pack_blas (sample_env\<lparr>pack_primitives := zero_only sample_pack_primitives\<rparr>)
       (\<lambda>a. sample_mesh) sample_blas =
     pack_blas sample_env (\<lambda>a. sample_mesh) sample_blas \<and>
   isl (pack_blas throwing_env (\<lambda>a. sample_mesh) sample_blas) \<and>
   visibility (objects (state_of (pack_blas throwing_env (\<lambda>a. sample_mesh) sample_blas)) ! 0) = 0 \<and>
   \<not> isl (pack_blas sample_env (\<lambda>a. sample_mesh) sample_blas) \<and>
   visibility (objects (state_of (pack_blas sample_env (\<lambda>a. sample_mesh) sample_blas)) ! 0) = 5 \<and>
   pack_primitives throwing_env (\<lambda>a. sample_mesh)
     (zeroed throwing_env (\<lambda>a. sample_mesh) sample_blas) = None \<and>
   pack_blas throwing_env (\<lambda>a. sample_mesh) sample_blas =
     Inl (PackPrimitivesThrew, zeroed throwing_env (\<lambda>a. sample_mesh) sample_blas) \<and>
   visibility (objects (zeroed throwing_env (\<lambda>a. sample_mesh) sample_blas) ! 0) = 0 \<and>
   pack_primitives sample_env (\<lambda>a. sample_mesh)
     (zeroed sample_env (\<lambda>a. sample_mesh) sample_blas) \<noteq> None \<and>
   objects (projr (pack_blas sample_env (\<lambda>a. sample_mesh) sample_blas)) = objects sample_blas"
proof -
  have len: "length (geometry sample_blas) = 1" "length (objects sample_blas) = 1"
    by (simp_all add: sample_blas_def)
  have agree: "\<forall>g t. visibility (objects t ! 0) = 0 \<longrightarrow>
      zero_only sample_pack_primitives g t = pack_primitives sample_env g t"
    by (simp add: zero_only_def sample_env_def)
  have v: "visibility (objects sample_blas ! 0) = 5"
    by (simp add: sample_blas_def sample_object_def)
  have none: "pack_primitives throwing_env (\<lambda>a. sample_mesh)
      (zeroed throwing_env (\<lambda>a. sample_mesh) sample_blas) = None"
    by (simp add: throwing_env_def)
  obtain r where some: "pack_primitives sample_env (\<lambda>a. sample_mesh)
      (zeroed sample_env (\<lambda>a. sample_mesh) sample_blas) = Some r"
    by (simp add: sample_env_def sample_pack_primitives_def Let_def)
  note ok = C8_pack_blas_visibility [where K = sample_env and geoms = "\<lambda>a. sample_mesh"
      and pp = "zero_only sample_pack_primitives", OF len, unfolded Let_def]
  note thrown = C8_pack_blas_visibility [where K = throwing_env and geoms = "\<lambda>a. sample_mesh"
      and pp = "zero_only sample_pack_primitives", OF len, unfolded Let_def]
  from ok agree have 1: "pack_blas (sample_env\<lparr>pack_primitives := zero_only sample_pack_primitives\<rparr>)
       (\<lambda>a. sample_mesh) sample_blas = pack_blas sample_env (\<lambda>a. sample_mesh) sample_blas"
    by blast
  from thrown none have 2: "pack_blas throwing_env (\<lambda>a. sample_mesh) sample_blas =
      Inl (PackPrimitivesThrew, zeroed throwing_env (\<lambda>a. sample_mesh) sample_blas)"
    and 3: "visibility (objects (state_of (pack_blas throwing_env (\<lambda>a. sample_mesh) sample_blas)) ! 0) = 0"
    by blast+
  from thrown have 4: "visibility (objects (zeroed throwing_env (\<lambda>a. sample_mesh) sample_blas) ! 0) = 0"
    by blast
  from ok some obtain s' where 5: "pack_blas sample_env (\<lambda>a. sample_mesh) sample_blas = Inr s'"
    and 6: "objects s' = objects sample_blas"
    and 7: "visibility (objects s' ! 0) = visibility (objects sample_blas ! 0)"
    by blast
  show ?thesis
    using 1 3 4 6 7 v none some by (simp add: 2 5 state_of_def)
qed

text \<open>
  Claim C10, as amended. \<^verbatim>\<open>pack_blas\<close> does not clear the pack first. For a hair with
  at least one curve it appends to \<open>prim_type\<close>, \<open>prim_index\<close> and \<open>prim_object\<close> as
  many entries as the hair has segments and keeps the entries that were there, so a
  second call on the same hair appends the same entries again. For a mesh or volume
  with at least one triangle it resizes \<open>prim_type\<close> and \<open>prim_index\<close> to the triangle
  count, whatever their length was, and leaves \<open>prim_object\<close> as it was.
\<close>

theorem C10_pack_blas_appends_or_resizes:
  assumes "length (geometry s) = 1" and "length (objects s) = 1"
  shows "let geom = geoms (geometry s ! 0); n = sum_list (curve_num_segments geom);
             p = pack s; s1 = state_of (pack_blas K geoms s); p1 = pack s1;
             p2 = pack (state_of (pack_blas K geoms s1))
         in (geometry_type geom = HAIR \<and> curve_num_segments geom \<noteq> [] \<longrightarrow>
               (\<exists>ts is os. length ts = n \<and> length is = n \<and> length os = n \<and>
                  prim_type p1 = prim_type p @ ts \<and> prim_index p1 = prim_index p @ is \<and>
                  prim_object p1 = prim_object p @ os \<and>
                  prim_type p2 = prim_type p @ ts @ ts \<and>
                  prim_index p2 = prim_index p @ is @ is \<and>
                  prim_object p2 = prim_object p @ os @ os)) \<and>
            (geometry_type geom \<noteq> HAIR \<and> 0 < num_triangles geom \<longrightarrow>
               length (prim_type p1) = num_triangles geom \<and>
               length (prim_index p1) = num_triangles geom \<and>
               prim_object p1 = prim_object p)"
proof -
  let ?geom = "geoms (geometry s ! 0)"
  let ?s1 = "state_of (pack_blas K geoms s)"
  have s1: "length (geometry ?s1) = 1" "length (objects ?s1) = 1" "geometry ?s1 = geometry s"
    using assms by (simp_all add: pack_blas_state_of)
  have hair: "geometry_type ?geom = HAIR \<Longrightarrow> curve_num_segments ?geom \<noteq> [] \<Longrightarrow>
      pack_blas_prims K ?geom q =
        q\<lparr>prim_type := prim_type q @ curve_tags K (hair_type K ?geom) (curve_num_segments ?geom),
           prim_index := prim_index q @ curve_owners 0 (curve_num_segments ?geom),
           prim_object := prim_object q @ replicate (sum_list (curve_num_segments ?geom)) 0\<rparr>" for q
    by (simp add: pack_blas_prims_def pack_blas_hair_eq)
  have mesh: "geometry_type ?geom \<noteq> HAIR \<Longrightarrow>
      pack_blas_prims K ?geom q = pack_blas_mesh K ?geom q" for q
    by (simp add: pack_blas_prims_def)
  have A: "geometry_type ?geom = HAIR \<and> curve_num_segments ?geom \<noteq> [] \<longrightarrow>
     (\<exists>ts is os. length ts = sum_list (curve_num_segments ?geom) \<and>
        length is = sum_list (curve_num_segments ?geom) \<and>
        length os = sum_list (curve_num_segments ?geom) \<and>
        prim_type (pack ?s1) = prim_type (pack s) @ ts \<and>
        prim_index (pack ?s1) = prim_index (pack s) @ is \<and>
        prim_object (pack ?s1) = prim_object (pack s) @ os \<and>
        prim_type (pack (state_of (pack_blas K geoms ?s1))) = prim_type (pack s) @ ts @ ts \<and>
        prim_index (pack (state_of (pack_blas K geoms ?s1))) = prim_index (pack s) @ is @ is \<and>
        prim_object (pack (state_of (pack_blas K geoms ?s1))) = prim_object (pack s) @ os @ os)"
  proof (intro impI, elim conjE)
    assume h: "geometry_type ?geom = HAIR" "curve_num_segments ?geom \<noteq> []"
    show "\<exists>ts is os. length ts = sum_list (curve_num_segments ?geom) \<and>
        length is = sum_list (curve_num_segments ?geom) \<and>
        length os = sum_list (curve_num_segments ?geom) \<and>
        prim_type (pack ?s1) = prim_type (pack s) @ ts \<and>
        prim_index (pack ?s1) = prim_index (pack s) @ is \<and>
        prim_object (pack ?s1) = prim_object (pack s) @ os \<and>
        prim_type (pack (state_of (pack_blas K geoms ?s1))) = prim_type (pack s) @ ts @ ts \<and>
        prim_index (pack (state_of (pack_blas K geoms ?s1))) = prim_index (pack s) @ is @ is \<and>
        prim_object (pack (state_of (pack_blas K geoms ?s1))) = prim_object (pack s) @ os @ os"
      apply (rule exI [of _ "curve_tags K (hair_type K ?geom) (curve_num_segments ?geom)"])
      apply (rule exI [of _ "curve_owners 0 (curve_num_segments ?geom)"])
      apply (rule exI [of _ "replicate (sum_list (curve_num_segments ?geom)) 0"])
      using h
      by (simp add: pack_blas_state_of [OF s1(1,2)] pack_blas_state_of [OF assms]
          s1(3) hair length_curve_tags length_curve_owners)
  qed
  have B: "geometry_type ?geom \<noteq> HAIR \<and> 0 < num_triangles ?geom \<longrightarrow>
     length (prim_type (pack ?s1)) = num_triangles ?geom \<and>
     length (prim_index (pack ?s1)) = num_triangles ?geom \<and>
     prim_object (pack ?s1) = prim_object (pack s)"
    by (simp add: pack_blas_state_of [OF assms] mesh pack_blas_mesh_prim_type
        pack_blas_mesh_prim_index pack_blas_mesh_prim_object)
  show ?thesis
    unfolding Let_def using A B by (rule conjI)
qed

text \<open>
  Claim C10 as stated fails for \<open>prim_object\<close>: after \<^verbatim>\<open>pack_blas\<close> on the sample mesh
  of two triangles it has no entry.
\<close>

theorem C10_counterexample:
  "geometry_type sample_mesh = MESH \<and> num_triangles sample_mesh = 2 \<and>
   length (prim_object (pack (state_of (pack_blas sample_env (\<lambda>a. sample_mesh) sample_blas)))) = 0"
  by (simp add: sample_returns state_of_def) (simp add: sample_mesh_def)

text \<open>
  The sample hair packed twice, and the sample mesh packed into a pack that held three
  type tags and one object index.
\<close>

theorem C10_pack_blas_appends_or_resizes_witness:
  "(let p1 = pack (state_of (pack_blas sample_env (\<lambda>a. sample_hair) sample_blas));
        p2 = pack (state_of (pack_blas sample_env (\<lambda>a. sample_hair)
                     (state_of (pack_blas sample_env (\<lambda>a. sample_hair) sample_blas))))
    in length (prim_index p1) = 4 \<and> prim_index p2 = prim_index p1 @ prim_index p1 \<and>
       prim_type p2 = prim_type p1 @ prim_type p1 \<and>
       prim_object p2 = prim_object p1 @ prim_object p1) \<and>
   (let p1 = pack (state_of (pack_blas sample_env (\<lambda>a. sample_mesh)
                     (sample_blas\<lparr>pack := empty_pack\<lparr>prim_type := [7, 7, 7], prim_object := [9]\<rparr>\<rparr>)))
    in length (prim_type p1) = 2 \<and> length (prim_index p1) = 2 \<and> prim_object p1 = [9])"
proof -
  have len: "length (geometry sample_blas) = 1" "length (objects sample_blas) = 1"
    by (simp_all add: sample_blas_def)
  let ?m = "sample_blas\<lparr>pack := empty_pack\<lparr>prim_type := [7, 7, 7], prim_object := [9]\<rparr>\<rparr>"
  have len': "length (geometry ?m) = 1" "length (objects ?m) = 1"
    by (simp_all add: sample_blas_def)
  have h: "geometry_type ((\<lambda>a. sample_hair) (geometry sample_blas ! 0)) = HAIR \<and>
           curve_num_segments ((\<lambda>a. sample_hair) (geometry sample_blas ! 0)) \<noteq> []"
    and n: "sum_list (curve_num_segments ((\<lambda>a. sample_hair) (geometry sample_blas ! 0))) = 4"
    and e: "prim_type (pack sample_blas) = []" "prim_index (pack sample_blas) = []"
           "prim_object (pack sample_blas) = []"
    by (simp_all add: sample_hair_def sample_blas_def empty_pack_def)
  have m: "geometry_type ((\<lambda>a. sample_mesh) (geometry ?m ! 0)) \<noteq> HAIR \<and>
           0 < num_triangles ((\<lambda>a. sample_mesh) (geometry ?m ! 0))"
    and n': "num_triangles ((\<lambda>a. sample_mesh) (geometry ?m ! 0)) = 2"
    and o: "prim_object (pack ?m) = [9]"
    by (simp_all add: sample_mesh_def empty_pack_def)
  note hair = C10_pack_blas_appends_or_resizes [OF len, of "\<lambda>a. sample_hair" sample_env,
      unfolded Let_def, THEN conjunct1, THEN mp, OF h, unfolded n e append_Nil]
  note mesh = C10_pack_blas_appends_or_resizes [OF len', of "\<lambda>a. sample_mesh" sample_env,
      unfolded Let_def, THEN conjunct2, THEN mp, OF m, unfolded n' o]
  from hair obtain ts "is" os where
    "length is = 4"
    "prim_type (pack (state_of (pack_blas sample_env (\<lambda>a. sample_hair) sample_blas))) = ts"
    "prim_index (pack (state_of (pack_blas sample_env (\<lambda>a. sample_hair) sample_blas))) = is"
    "prim_object (pack (state_of (pack_blas sample_env (\<lambda>a. sample_hair) sample_blas))) = os"
    "prim_type (pack (state_of (pack_blas sample_env (\<lambda>a. sample_hair)
        (state_of (pack_blas sample_env (\<lambda>a. sample_hair) sample_blas))))) = ts @ ts"
    "prim_index (pack (state_of (pack_blas sample_env (\<lambda>a. sample_hair)
        (state_of (pack_blas sample_env (\<lambda>a. sample_hair) sample_blas))))) = is @ is"
    "prim_object (pack (state_of (pack_blas sample_env (\<lambda>a. sample_hair)
        (state_of (pack_blas sample_env (\<lambda>a. sample_hair) sample_blas))))) = os @ os"
    by blast
  with mesh show ?thesis
    by (simp add: Let_def)
qed

subsection \<open>The loop of the top-level packer\<close>

lemma pack_tlas_loop_append:
  "pack_tlas_loop K geoms s (xs @ ys) st = pack_tlas_loop K geoms s ys (pack_tlas_loop K geoms s xs st)"
proof (induction xs arbitrary: st)
  case Nil
  then show ?case by simp
next
  case (Cons g xs)
  obtain d off voff pool where st: "st = (d, off, voff, pool)"
    by (cases st) auto
  show ?case
    unfolding st by (simp add: Let_def Cons.IH split: prod.splits)
qed

lemma pack_tlas_loop_eq:
  "snd (pack_tlas_loop K geoms s gs (d, off, voff, pool)) =
     (off + sum_list (map (slots geoms) gs), voff + sum_list (map (verts geoms) gs),
      pool @ tasks_from K geoms s gs off voff)"
proof (induction gs arbitrary: d off voff pool)
  case Nil
  then show ?case by simp
next
  case (Cons g gs)
  show ?case
    by (simp add: Let_def Cons.IH slots_def verts_def scheduled_def bound_task_def
        split: prod.splits)
qed

lemma totals_fold:
  "fold (\<lambda>geom (a, b). (a + length (prim_index (bvh_pack (geoms geom))),
                         b + length (prim_tri_verts (bvh_pack (geoms geom))))) gs (a0, b0) =
     (a0 + sum_list (map (slots geoms) gs), b0 + sum_list (map (verts geoms) gs))"
  by (induction gs arbitrary: a0 b0) (simp_all add: slots_def verts_def)

lemma offsets_at_eq:
  "offsets_at K geoms s i =
     (sum_list (map (slots geoms) (take i (geometry s))),
      sum_list (map (verts geoms) (take i (geometry s))))"
proof -
  obtain d r where r: "pack_tlas_loop K geoms s (take i (geometry s)) (\<lambda>g. 0, 0, 0, []) = (d, r)"
    by (cases "pack_tlas_loop K geoms s (take i (geometry s)) (\<lambda>g. 0, 0, 0, [])") auto
  have "r = (0 + sum_list (map (slots geoms) (take i (geometry s))),
             0 + sum_list (map (verts geoms) (take i (geometry s))),
             [] @ tasks_from K geoms s (take i (geometry s)) 0 0)"
    using pack_tlas_loop_eq [of K geoms s "take i (geometry s)" "\<lambda>g. 0" 0 0 "[]"] r by simp
  then show ?thesis
    by (simp add: offsets_at_def r)
qed

lemma pack_tlas_dispatch_eq:
  "pack_tlas_dispatch K geoms (d, s) =
     (if sum_list (map (slots geoms) (geometry s)) = 0 then (d, s, [])
      else (fst (pack_tlas_loop K geoms s (geometry s) (d, 0, 0, [])),
            s\<lparr>pack := (pack s)
                 \<lparr>prim_type := resize (uninitialized K) (sum_list (map (slots geoms) (geometry s))) (prim_type (pack s)),
                  prim_index := resize (uninitialized K) (sum_list (map (slots geoms) (geometry s))) (prim_index (pack s)),
                  prim_object := resize (uninitialized K) (sum_list (map (slots geoms) (geometry s))) (prim_object (pack s)),
                  prim_visibility := resize (uninitialized K) (sum_list (map (slots geoms) (geometry s))) (prim_visibility (pack s)),
                  prim_tri_index := resize (uninitialized K) (sum_list (map (slots geoms) (geometry s))) (prim_tri_index (pack s)),
                  prim_tri_verts := resize (uninitialized_verts K) (sum_list (map (verts geoms) (geometry s)))
                                        (prim_tri_verts (pack s))\<rparr>\<rparr>,
            tasks_from K geoms s (geometry s) 0 0))"
proof -
  obtain d' r where r: "pack_tlas_loop K geoms s (geometry s) (d, 0, 0, []) = (d', r)"
    by (cases "pack_tlas_loop K geoms s (geometry s) (d, 0, 0, [])") auto
  have "r = (0 + sum_list (map (slots geoms) (geometry s)),
             0 + sum_list (map (verts geoms) (geometry s)),
             [] @ tasks_from K geoms s (geometry s) 0 0)"
    using pack_tlas_loop_eq [of K geoms s "geometry s" d 0 0 "[]"] r by simp
  then show ?thesis
    by (simp add: pack_tlas_dispatch_def totals_fold r Let_def)
qed

lemma pack_tlas_empty:
  assumes "sum_list (map (slots geoms) (geometry s)) = 0"
  shows "pack_tlas_dispatch K geoms (d, s) = (d, s, [])"
    and "pack_tlas K geoms (d, s) = Inr (d, s)"
proof -
  show "pack_tlas_dispatch K geoms (d, s) = (d, s, [])"
    unfolding pack_tlas_dispatch_eq using assms by (rule if_P)
  then show "pack_tlas K geoms (d, s) = Inr (d, s)"
    by (simp add: pack_tlas_def)
qed

lemma tasks_from_append:
  "tasks_from K geoms s (xs @ ys) off voff =
     tasks_from K geoms s xs off voff @
     tasks_from K geoms s ys (off + sum_list (map (slots geoms) xs))
       (voff + sum_list (map (verts geoms) xs))"
  by (induction xs arbitrary: off voff) (simp_all add: add.assoc)

lemma tasks_from_unscheduled:
  "\<forall>g\<in>set gs. \<not> scheduled geoms s g \<Longrightarrow> tasks_from K geoms s gs off voff = []"
  by (induction gs arbitrary: off voff) simp_all

lemma bound_task_simps [simp]:
  "task_geom (bound_task K geoms s g off voff) = g"
  "task_pack_offset (bound_task K geoms s g off voff) = off"
  "task_pack_verts_offset (bound_task K geoms s g off voff) = voff"
  "task_force_pack (bound_task K geoms s g off voff) = pack_all_data s"
  "task_object_index (bound_task K geoms s g off voff) =
     fst (scan_objects K g (geoms g) (objects s) (0, 0, False))"
  "task_object_visibility (bound_task K geoms s g off voff) =
     fst (snd (scan_objects K g (geoms g) (objects s) (0, 0, False)))"
  "task_visibility_modified (bound_task K geoms s g off voff) =
     snd (snd (scan_objects K g (geoms g) (objects s) (0, 0, False)))"
  by (simp_all add: bound_task_def split: prod.splits)


lemma scan_objects_instanced:
  "is_instanced g \<Longrightarrow>
   scan_objects K geom g obs (oi, ov, vm) =
     (oi,
      fold (\<lambda>ob v. v OR visibility_for_tracing K ob) (filter (\<lambda>ob. ob_geometry ob = geom) obs) ov,
      vm \<or> (\<exists>ob\<in>set obs. ob_geometry ob = geom \<and>
               (visibility_is_modified ob \<or> is_shadow_catcher_is_modified ob)))"
  by (induction obs arbitrary: ov vm) (auto simp: Let_def)

subsection \<open>The task body\<close>

lemma length_overwrite:
  "off + length new \<le> length dst \<Longrightarrow> length (overwrite dst off new) = length dst"
  by (simp add: overwrite_def)

lemma overwrite_Nil [simp]: "overwrite dst off [] = dst"
  by (simp add: overwrite_def)

lemma nth_overwrite:
  "off + length new \<le> length dst \<Longrightarrow> x < length dst \<Longrightarrow>
   overwrite dst off new ! x =
     (if off \<le> x \<and> x < off + length new then new ! (x - off) else dst ! x)"
  by (auto simp: overwrite_def nth_append min_def)

lemma overwrite_step:
  "off < length dst \<Longrightarrow> overwrite (dst[off := v]) (Suc off) new = overwrite dst off (v # new)"
  by (simp add: overwrite_def take_Suc_conv_app_nth)

lemma pack_instance_slot_eq:
  assumes "i < length (prim_index src)" "pack_wf src" "off < L" "sized L LV p"
  shows "pack_instance_slot K src gpo voff oi ov i off p =
     Inr (p\<lparr>prim_index := (prim_index p)[off := prim_index src ! i + gpo],
            prim_tri_index := (prim_tri_index p)[off := merged_tri_index K src voff i],
            prim_type := (prim_type p)[off := prim_type src ! i],
            prim_object := (prim_object p)[off := oi],
            prim_visibility := (prim_visibility p)[off := ov]\<rparr>)"
  using assms
  by (simp add: pack_instance_slot_def pack_wf_def sized_def merged_tri_index_def)

lemma pack_instance_loop_eq:
  assumes "\<forall>i\<in>set js. i < length (prim_index src)" "pack_wf src"
    "off + length js \<le> L" "sized L LV p"
  shows "pack_instance_loop K src gpo voff oi ov js off p =
     Inr (p\<lparr>prim_index := overwrite (prim_index p) off (map (\<lambda>i. prim_index src ! i + gpo) js),
            prim_tri_index := overwrite (prim_tri_index p) off (map (merged_tri_index K src voff) js),
            prim_type := overwrite (prim_type p) off (map (\<lambda>i. prim_type src ! i) js),
            prim_object := overwrite (prim_object p) off (map (\<lambda>i. oi) js),
            prim_visibility := overwrite (prim_visibility p) off (map (\<lambda>i. ov) js)\<rparr>)"
  using assms
proof (induction js arbitrary: off p)
  case Nil
  then show ?case by simp
next
  case (Cons i js)
  let ?p1 = "p\<lparr>prim_index := (prim_index p)[off := prim_index src ! i + gpo],
            prim_tri_index := (prim_tri_index p)[off := merged_tri_index K src voff i],
            prim_type := (prim_type p)[off := prim_type src ! i],
            prim_object := (prim_object p)[off := oi],
            prim_visibility := (prim_visibility p)[off := ov]\<rparr>"
  have off: "off < L" using Cons.prems(3) by simp
  have slot: "pack_instance_slot K src gpo voff oi ov i off p = Inr ?p1"
    using Cons.prems off by (intro pack_instance_slot_eq) simp_all
  have sz: "sized L LV ?p1"
    using Cons.prems(4) by (simp add: sized_def)
  have rest: "pack_instance_loop K src gpo voff oi ov js (Suc off) ?p1 =
     Inr (?p1\<lparr>prim_index := overwrite (prim_index ?p1) (Suc off) (map (\<lambda>i. prim_index src ! i + gpo) js),
            prim_tri_index := overwrite (prim_tri_index ?p1) (Suc off) (map (merged_tri_index K src voff) js),
            prim_type := overwrite (prim_type ?p1) (Suc off) (map (\<lambda>i. prim_type src ! i) js),
            prim_object := overwrite (prim_object ?p1) (Suc off) (map (\<lambda>i. oi) js),
            prim_visibility := overwrite (prim_visibility ?p1) (Suc off) (map (\<lambda>i. ov) js)\<rparr>)"
    using Cons.prems sz by (intro Cons.IH) simp_all
  have lens: "off < length (prim_index p)" "off < length (prim_tri_index p)"
    "off < length (prim_type p)" "off < length (prim_object p)" "off < length (prim_visibility p)"
    using Cons.prems(4) off by (simp_all add: sized_def)
  show ?case
    by (simp add: slot rest overwrite_step lens)
qed

lemma memcpy_eq:
  "off + length src \<le> length dst \<Longrightarrow> memcpy dst off src = Inr (overwrite dst off src)"
  by (simp add: memcpy_def overwrite_def)

lemma pack_instance_eq:
  assumes "task_ok geoms L LV t" "sized L LV p"
  shows "pack_instance K geoms t p = Inr (merged K geoms t p)"
proof -
  let ?geom = "geoms (task_geom t)"
  let ?src = "bvh_pack ?geom"
  have wf: "pack_wf ?src" and off: "task_pack_offset t + length (prim_index ?src) \<le> L"
    and voff: "task_pack_verts_offset t + length (prim_tri_verts ?src) \<le> LV"
    using assms(1) by (simp_all add: task_ok_def slots_def verts_def)
  have loop: "pack_instance_loop K ?src (prim_offset ?geom) (task_pack_verts_offset t)
        (task_object_index t) (task_object_visibility t) [0..<length (prim_index ?src)]
        (task_pack_offset t) p =
     Inr (p\<lparr>prim_index := overwrite (prim_index p) (task_pack_offset t)
               (map (\<lambda>i. prim_index ?src ! i + prim_offset ?geom) [0..<length (prim_index ?src)]),
            prim_tri_index := overwrite (prim_tri_index p) (task_pack_offset t)
               (map (merged_tri_index K ?src (task_pack_verts_offset t)) [0..<length (prim_index ?src)]),
            prim_type := overwrite (prim_type p) (task_pack_offset t)
               (map (\<lambda>i. prim_type ?src ! i) [0..<length (prim_index ?src)]),
            prim_object := overwrite (prim_object p) (task_pack_offset t)
               (map (\<lambda>i. task_object_index t) [0..<length (prim_index ?src)]),
            prim_visibility := overwrite (prim_visibility p) (task_pack_offset t)
               (map (\<lambda>i. task_object_visibility t) [0..<length (prim_index ?src)])\<rparr>)"
    using wf off assms(2) by (intro pack_instance_loop_eq [where L = L and LV = LV]) simp_all
  have lv: "length (prim_tri_verts p) = LV" using assms(2) by (simp add: sized_def)
  have empty: "prim_index ?src \<noteq> [] \<Longrightarrow> prim_type ?src \<noteq> [] \<and> prim_tri_index ?src \<noteq> []"
    using wf by (auto simp: pack_wf_def)
  show ?thesis
  proof (cases "prim_index ?src = []")
    case True
    then show ?thesis
      using voff lv
      by (cases "prim_tri_verts ?src = []")
         (simp_all add: pack_instance_def merged_def Let_def memcpy_eq)
  next
    case False
    show ?thesis
    proof (cases "prims_have_changed ?geom t")
      case True
      then have c: "((if is_mesh ?geom
                         then (if \<not> triangles_is_modified ?geom \<and> \<not> task_force_pack t
                               then False else True)
                         else True) \<or> task_visibility_modified t)"
        by (auto simp: prims_have_changed_def)
      show ?thesis
        using False empty True voff lv
        by (cases "prim_tri_verts ?src = []")
           (simp_all add: pack_instance_def merged_def Let_def memcpy_eq loop c del: upt.simps)
    next
      case f: False
      then have c: "\<not> ((if is_mesh ?geom
                         then (if \<not> triangles_is_modified ?geom \<and> \<not> task_force_pack t
                               then False else True)
                         else True) \<or> task_visibility_modified t)"
        by (auto simp: prims_have_changed_def)
      show ?thesis
        using False empty f voff lv
        by (cases "prim_tri_verts ?src = []")
           (simp_all add: pack_instance_def merged_def Let_def memcpy_eq c)
    qed
  qed
qed

lemma sized_merged:
  assumes "task_ok geoms L LV t" "sized L LV p"
  shows "sized L LV (merged K geoms t p)"
  using assms
  by (simp add: merged_def Let_def sized_def task_ok_def slots_def verts_def length_overwrite)

lemma wait_work_eq:
  assumes "\<forall>t\<in>set ts. task_ok geoms L LV t" "sized L LV p"
  shows "wait_work K geoms ts p = Inr (fold (merged K geoms) ts p) \<and>
         sized L LV (fold (merged K geoms) ts p)"
  using assms
proof (induction ts arbitrary: p)
  case Nil
  then show ?case by simp
next
  case (Cons t ts)
  then have "sized L LV (merged K geoms t p)"
    by (simp add: sized_merged)
  with Cons show ?case
    by (simp add: pack_instance_eq [where L = L and LV = LV])
qed

lemma pack_instance_slot_sized:
  "pack_instance_slot K src gpo voff oi ov i off p = Inr p' \<Longrightarrow> sized L LV p \<Longrightarrow> sized L LV p'"
  by (auto simp: pack_instance_slot_def sized_def split: if_splits)

lemma pack_instance_loop_sized:
  "pack_instance_loop K src gpo voff oi ov js off p = Inr p' \<Longrightarrow> sized L LV p \<Longrightarrow> sized L LV p'"
proof (induction js arbitrary: off p)
  case Nil
  then show ?case by simp
next
  case (Cons i js)
  then show ?case
    by (auto split: sum.splits dest: pack_instance_slot_sized)
qed

lemma pack_instance_sized:
  assumes "pack_instance K geoms t p = Inr p'" "sized L LV p"
  shows "sized L LV p'"
proof -
  let ?src = "bvh_pack (geoms (task_geom t))"
  obtain p1 where p1: "sized L LV p1"
    and fin: "p' = p1 \<or> (\<exists>v. memcpy (prim_tri_verts p1) (task_pack_verts_offset t) (prim_tri_verts ?src) = Inr v
                 \<and> p' = p1\<lparr>prim_tri_verts := v\<rparr>)"
    using assms
    by (auto simp: pack_instance_def Let_def split: if_splits sum.splits
        dest: pack_instance_loop_sized)
  from fin show ?thesis
  proof
    assume "p' = p1" with p1 show ?thesis by simp
  next
    assume "\<exists>v. memcpy (prim_tri_verts p1) (task_pack_verts_offset t) (prim_tri_verts ?src) = Inr v
                 \<and> p' = p1\<lparr>prim_tri_verts := v\<rparr>"
    then obtain v where v: "memcpy (prim_tri_verts p1) (task_pack_verts_offset t) (prim_tri_verts ?src) = Inr v"
      and p': "p' = p1\<lparr>prim_tri_verts := v\<rparr>" by blast
    from v have "length v = length (prim_tri_verts p1)"
      by (auto simp: memcpy_def split: if_splits)
    with p1 p' show ?thesis by (simp add: sized_def)
  qed
qed

lemma wait_work_sized:
  "wait_work K geoms ts p = Inr p' \<Longrightarrow> sized L LV p \<Longrightarrow> sized L LV p'"
proof (induction ts arbitrary: p)
  case Nil
  then show ?case by simp
next
  case (Cons t ts)
  then show ?case
    by (auto split: sum.splits dest: pack_instance_sized)
qed

lemma tasks_from_ok:
  assumes "\<forall>g\<in>set gs. pack_wf (bvh_pack (geoms g))"
    "off + sum_list (map (slots geoms) gs) \<le> L" "voff + sum_list (map (verts geoms) gs) \<le> LV"
  shows "\<forall>t\<in>set (tasks_from K geoms s gs off voff). task_ok geoms L LV t \<and> off \<le> task_pack_offset t"
  using assms
proof (induction gs arbitrary: off voff)
  case Nil
  then show ?case by simp
next
  case (Cons g gs)
  have "\<forall>t\<in>set (tasks_from K geoms s gs (off + slots geoms g) (voff + verts geoms g)).
          task_ok geoms L LV t \<and> off + slots geoms g \<le> task_pack_offset t"
    using Cons.prems by (intro Cons.IH) (simp_all add: add.assoc)
  moreover have "task_ok geoms L LV (bound_task K geoms s g off voff)"
    using Cons.prems by (simp add: task_ok_def)
  ultimately show ?case
    by auto
qed

lemma merged_visibility_frame:
  assumes "task_ok geoms L LV t" "sized L LV p" "x < L"
    "x < task_pack_offset t \<or> task_pack_offset t + slots geoms (task_geom t) \<le> x"
  shows "prim_visibility (merged K geoms t p) ! x = prim_visibility p ! x"
  using assms
  by (auto simp: merged_def Let_def sized_def task_ok_def slots_def nth_overwrite)

lemma merged_visibility_block:
  assumes "task_ok geoms L LV t" "sized L LV p"
    "prims_have_changed (geoms (task_geom t)) t" "k < slots geoms (task_geom t)"
  shows "prim_visibility (merged K geoms t p) ! (task_pack_offset t + k) = task_object_visibility t"
  using assms
  by (simp add: merged_def Let_def sized_def task_ok_def slots_def nth_overwrite)

lemma fold_merged_visibility_frame:
  assumes "\<forall>t\<in>set ts. task_ok geoms L LV t \<and> x < task_pack_offset t" "sized L LV p" "x < L"
  shows "prim_visibility (fold (merged K geoms) ts p) ! x = prim_visibility p ! x"
  using assms
proof (induction ts arbitrary: p)
  case Nil
  then show ?case by simp
next
  case (Cons t ts)
  then have "sized L LV (merged K geoms t p)"
    by (simp add: sized_merged)
  with Cons show ?case
    by (simp add: merged_visibility_frame [where L = L and LV = LV])
qed

subsection \<open>A build that schedules nothing\<close>

lemma slots_cong:
  "\<forall>g\<in>set gs. bvh_pack (geoms2 g) = bvh_pack (geoms g) \<Longrightarrow>
   map (slots geoms2) gs = map (slots geoms) gs \<and> map (verts geoms2) gs = map (verts geoms) gs"
  by (simp add: slots_def verts_def)

lemma sized_resized:
  "sized L LV
     (p\<lparr>prim_type := resize j L (prim_type p), prim_index := resize j L (prim_index p),
        prim_object := resize j L (prim_object p),
        prim_visibility := resize j L (prim_visibility p),
        prim_tri_index := resize j L (prim_tri_index p),
        prim_tri_verts := resize jv LV (prim_tri_verts p)\<rparr>)"
  by (simp add: sized_def length_resize)

lemma resized_sized:
  "sized L LV p \<Longrightarrow>
     p\<lparr>prim_type := resize j L (prim_type p), prim_index := resize j L (prim_index p),
       prim_object := resize j L (prim_object p),
       prim_visibility := resize j L (prim_visibility p),
       prim_tri_index := resize j L (prim_tri_index p),
       prim_tri_verts := resize jv LV (prim_tri_verts p)\<rparr> = p"
  by (simp add: sized_def resize_same)

lemma pack_tlas_unscheduled:
  assumes "\<forall>g\<in>set (geometry s). \<not> is_modified (geoms g)" "\<not> pack_all_data s"
    "sum_list (map (slots geoms) (geometry s)) = 0 \<or>
     sized (sum_list (map (slots geoms) (geometry s))) (sum_list (map (verts geoms) (geometry s))) (pack s)"
  shows "snd (pack_tlas_dispatch K geoms (d, s)) = (s, []) \<and>
         pack_tlas K geoms (d, s) = Inr (fst (pack_tlas_dispatch K geoms (d, s)), s)"
proof -
  have none: "tasks_from K geoms s (geometry s) 0 0 = []"
    using assms(1,2) by (intro tasks_from_unscheduled) (simp add: scheduled_def)
  have disp: "snd (pack_tlas_dispatch K geoms (d, s)) = (s, [])"
  proof (cases "sum_list (map (slots geoms) (geometry s)) = 0")
    case True
    then have "pack_tlas_dispatch K geoms (d, s) = (d, s, [])"
      unfolding pack_tlas_dispatch_eq by (rule if_P)
    then show ?thesis by simp
  next
    case False
    with assms(3) have "sized (sum_list (map (slots geoms) (geometry s)))
        (sum_list (map (verts geoms) (geometry s))) (pack s)"
      by blast
    then show ?thesis
      unfolding pack_tlas_dispatch_eq if_not_P [OF False] none
      by (simp add: resized_sized)
  qed
  then show ?thesis
    by (cases "pack_tlas_dispatch K geoms (d, s)") (auto simp: pack_tlas_def)
qed

lemma pack_tlas_sized:
  assumes "pack_tlas K geoms (d, s) = Inr (d1, s1)"
  shows "geometry s1 = geometry s \<and>
         (sum_list (map (slots geoms) (geometry s)) = 0 \<and> s1 = s \<or>
          sized (sum_list (map (slots geoms) (geometry s))) (sum_list (map (verts geoms) (geometry s))) (pack s1))"
proof (cases "sum_list (map (slots geoms) (geometry s)) = 0")
  case True
  then have "pack_tlas_dispatch K geoms (d, s) = (d, s, [])"
    unfolding pack_tlas_dispatch_eq by (rule if_P)
  then show ?thesis
    using assms True by (simp add: pack_tlas_def)
next
  case False
  let ?L = "sum_list (map (slots geoms) (geometry s))"
  let ?LV = "sum_list (map (verts geoms) (geometry s))"
  let ?p0 = "(pack s)\<lparr>prim_type := resize (uninitialized K) ?L (prim_type (pack s)),
                  prim_index := resize (uninitialized K) ?L (prim_index (pack s)),
                  prim_object := resize (uninitialized K) ?L (prim_object (pack s)),
                  prim_visibility := resize (uninitialized K) ?L (prim_visibility (pack s)),
                  prim_tri_index := resize (uninitialized K) ?L (prim_tri_index (pack s)),
                  prim_tri_verts := resize (uninitialized_verts K) ?LV (prim_tri_verts (pack s))\<rparr>"
  have disp: "pack_tlas_dispatch K geoms (d, s) =
      (fst (pack_tlas_loop K geoms s (geometry s) (d, 0, 0, [])), s\<lparr>pack := ?p0\<rparr>,
       tasks_from K geoms s (geometry s) 0 0)"
    unfolding pack_tlas_dispatch_eq using False by (rule if_not_P)
  from assms obtain p1 where
    ww: "wait_work K geoms (tasks_from K geoms s (geometry s) 0 0) ?p0 = Inr p1"
    and s1: "s1 = s\<lparr>pack := p1\<rparr>"
    unfolding pack_tlas_def disp by (auto split: sum.splits)
  have "sized ?L ?LV p1"
    using ww sized_resized by (rule wait_work_sized)
  with s1 False show ?thesis by simp
qed

subsection \<open>The sample scene, evaluated\<close>

lemma packed_tlas_eq:
  "packed_tlas =
     \<lparr>top_level = True, pack_all_data = True, geometry = [0, 1],
      objects = [object_A, object_B, object_C],
      pack = \<lparr>prim_type = [1, 1, 4, 68, 132, 4], prim_index = [0, 1, 2, 2, 2, 3],
              prim_object = [0, 0, 0, 0, 0, 0], prim_visibility = [3, 3, 4, 4, 4, 4],
              prim_tri_index = [0, 3, - 1, - 1, - 1, - 1],
              prim_tri_verts = [make_float4 1 0 0 0, make_float4 2 0 0 0, make_float4 3 0 0 0,
                                make_float4 4 0 0 0, make_float4 5 0 0 0, make_float4 6 0 0 0]\<rparr>,
      do_refit = False\<rparr>"
  by code_simp

lemma sample_not_isl: "\<not> isl (pack_tlas sample_env sample_geoms (\<lambda>g. 0, sample_tlas))"
  by code_simp

lemma sample_packed:
  "pack_tlas sample_env sample_geoms (\<lambda>g. 0, sample_tlas) =
     Inr (fst (projr (pack_tlas sample_env sample_geoms (\<lambda>g. 0, sample_tlas))), packed_tlas)"
  using sample_not_isl by (simp add: packed_tlas_def)


lemma single_user_packed:
  "\<not> isl (pack_tlas sample_env single_user_geoms (\<lambda>g. 0, two_users_tlas)) \<and>
   prim_visibility (pack (snd (projr (pack_tlas sample_env single_user_geoms (\<lambda>g. 0, two_users_tlas))))) =
     [1, 1]"
  by code_simp

subsection \<open>The top-level packer\<close>

text \<open>
  Claim C3, as amended. When the \<open>prim_index\<close> sizes of the bottom-level packs of all
  geometries sum to zero, \<^verbatim>\<open>pack_tlas\<close> returns at line 146: no task is pushed, the
  result is a normal return and not an error, and the scene pack is exactly as it was
  before the call, since nothing is resized. So the arrays are empty if they were
  empty, and keep the entries of an earlier build otherwise.
\<close>

theorem C3_pack_tlas_empty_scene:
  assumes "sum_list (map (\<lambda>g. length (prim_index (bvh_pack (geoms g)))) (geometry s)) = 0"
  shows "pack_tlas_dispatch K geoms (device_verts_pointer, s) = (device_verts_pointer, s, []) \<and>
         pack_tlas K geoms (device_verts_pointer, s) = Inr (device_verts_pointer, s)"
proof -
  have "sum_list (map (slots geoms) (geometry s)) = 0"
    using assms by (simp add: slots_def [abs_def])
  then have "pack_tlas_dispatch K geoms (device_verts_pointer, s) = (device_verts_pointer, s, [])"
    by (simp add: pack_tlas_dispatch_eq)
  then show ?thesis
    by (simp add: pack_tlas_def)
qed

text \<open>
  Claim C3 as stated fails: the arrays are not left empty when they were not empty.
  After the sample scene was built and all its geometry removed, the next build
  returns early and the six slots of the first build are still there.
\<close>

theorem C3_counterexample:
  "sum_list (map (\<lambda>g. length (prim_index (bvh_pack (sample_geoms g)))) (geometry stale_tlas)) = 0 \<and>
   \<not> isl (pack_tlas sample_env sample_geoms (\<lambda>g. 0, stale_tlas)) \<and>
   prim_index (pack (snd (projr (pack_tlas sample_env sample_geoms (\<lambda>g. 0, stale_tlas))))) =
     [0, 1, 2, 2, 2, 3]"
proof -
  have "sum_list (map (slots sample_geoms) (geometry stale_tlas)) = 0"
    by (simp add: stale_tlas_def)
  then have "pack_tlas sample_env sample_geoms (\<lambda>g. 0, stale_tlas) = Inr (\<lambda>g. 0, stale_tlas)"
    by (rule pack_tlas_empty)
  then show ?thesis
    by (simp add: stale_tlas_def packed_tlas_eq)
qed

text \<open>The same scene: the early return changes nothing and pushes nothing.\<close>

theorem C3_pack_tlas_empty_scene_witness:
  "sum_list (map (\<lambda>g. length (prim_index (bvh_pack (sample_geoms g)))) (geometry stale_tlas)) = 0 \<and>
   pack_tlas sample_env sample_geoms (\<lambda>g. 0, stale_tlas) = Inr (\<lambda>g. 0, stale_tlas) \<and>
   snd (snd (pack_tlas_dispatch sample_env sample_geoms (\<lambda>g. 0, stale_tlas))) = []"
proof -
  have h: "sum_list (map (\<lambda>g. length (prim_index (bvh_pack (sample_geoms g)))) (geometry stale_tlas)) = 0"
    by (simp add: stale_tlas_def)
  show ?thesis
    using h C3_pack_tlas_empty_scene [OF h, of sample_env "\<lambda>g. 0"] by simp
qed



text \<open>
  Claim C5. Take a call of \<^verbatim>\<open>pack_instance\<close> whose accesses stay inside the arrays: the
  bottom-level pack has as many type tags and triangle indices as primitive indices,
  and its slots and vertices, placed at the two offsets, fit in the scene pack. Then
  the call returns, and when it copies the primitive data (the geometry is not a mesh,
  or its triangles are modified, or the force flag or the visibility-modified flag is
  set), every source slot \<open>i\<close> is written at \<open>pack_offset + i\<close>: the type tag
  unchanged, \<open>prim_index\<close> plus the geometry's \<open>prim_offset\<close>, \<open>prim_tri_index\<close> as -1
  for a curve type (a tag with a bit of \<^verbatim>\<open>PRIMITIVE_ALL_CURVE\<close>) and as the source value
  plus the vertex offset otherwise, \<open>prim_object\<close> as the object index and
  \<open>prim_visibility\<close> as the visibility mask of the task. The vertices of the
  bottom-level pack are copied unchanged to the vertex offset, whether the primitive
  data was copied or not. The sums are those of 32-bit integers.
\<close>

theorem C5_pack_instance_copy:
  assumes "length (prim_type (bvh_pack (geoms (task_geom t)))) =
             length (prim_index (bvh_pack (geoms (task_geom t))))"
    and "length (prim_tri_index (bvh_pack (geoms (task_geom t)))) =
             length (prim_index (bvh_pack (geoms (task_geom t))))"
    and "sized L LV p"
    and "task_pack_offset t + length (prim_index (bvh_pack (geoms (task_geom t)))) \<le> L"
    and "task_pack_verts_offset t + length (prim_tri_verts (bvh_pack (geoms (task_geom t)))) \<le> LV"
  shows "let geom = geoms (task_geom t); src = bvh_pack geom;
             off = task_pack_offset t; voff = task_pack_verts_offset t
         in \<exists>p'. pack_instance K geoms t p = Inr p' \<and>
              ((geometry_type geom = MESH \<longrightarrow> triangles_is_modified geom \<or> task_force_pack t) \<or>
               task_visibility_modified t \<longrightarrow>
                 (\<forall>i<length (prim_index src).
                    prim_type p' ! (off + i) = prim_type src ! i \<and>
                    prim_index p' ! (off + i) = prim_index src ! i + prim_offset geom \<and>
                    (prim_type src ! i AND PRIMITIVE_ALL_CURVE K \<noteq> 0 \<longrightarrow>
                       prim_tri_index p' ! (off + i) = - 1) \<and>
                    (prim_type src ! i AND PRIMITIVE_ALL_CURVE K = 0 \<longrightarrow>
                       prim_tri_index p' ! (off + i) = prim_tri_index src ! i + word_of_nat voff) \<and>
                    prim_object p' ! (off + i) = task_object_index t \<and>
                    prim_visibility p' ! (off + i) = task_object_visibility t)) \<and>
              (\<forall>i<length (prim_tri_verts src).
                 prim_tri_verts p' ! (voff + i) = prim_tri_verts src ! i)"
proof -
  let ?geom = "geoms (task_geom t)"
  let ?src = "bvh_pack ?geom"
  have ok: "task_ok geoms L LV t"
    using assms(1,2,4,5) by (simp add: task_ok_def pack_wf_def slots_def verts_def)
  have run: "pack_instance K geoms t p = Inr (merged K geoms t p)"
    using ok assms(3) by (rule pack_instance_eq)
  have lens: "length (prim_type p) = L" "length (prim_index p) = L" "length (prim_object p) = L"
    "length (prim_visibility p) = L" "length (prim_tri_index p) = L" "length (prim_tri_verts p) = LV"
    using assms(3) by (simp_all add: sized_def)
  have prims: "prim_type (merged K geoms t p) ! (task_pack_offset t + i) = prim_type ?src ! i \<and>
        prim_index (merged K geoms t p) ! (task_pack_offset t + i) = prim_index ?src ! i + prim_offset ?geom \<and>
        prim_tri_index (merged K geoms t p) ! (task_pack_offset t + i) =
          merged_tri_index K ?src (task_pack_verts_offset t) i \<and>
        prim_object (merged K geoms t p) ! (task_pack_offset t + i) = task_object_index t \<and>
        prim_visibility (merged K geoms t p) ! (task_pack_offset t + i) = task_object_visibility t"
    if "prims_have_changed ?geom t" "i < length (prim_index ?src)" for i
    using that assms(4) lens
    by (simp add: merged_def Let_def nth_overwrite)
  have vs: "prim_tri_verts (merged K geoms t p) ! (task_pack_verts_offset t + i) = prim_tri_verts ?src ! i"
    if "i < length (prim_tri_verts ?src)" for i
    using that assms(5) lens
    by (simp add: merged_def Let_def nth_overwrite)
  show ?thesis
    unfolding Let_def
    apply (rule exI [of _ "merged K geoms t p"])
    using run prims vs
    by (simp add: prims_have_changed_def is_mesh_def merged_tri_index_def)
qed

text \<open>
  The task of the sample mesh (a triangle slot) and the task of the sample hair (a
  curve slot), each on six blank slots.
\<close>

theorem C5_pack_instance_copy_witness:
  "(let p' = projr (pack_instance sample_env sample_geoms mesh_task blank_pack)
    in \<not> isl (pack_instance sample_env sample_geoms mesh_task blank_pack) \<and>
       prim_type p' ! 1 = 1 \<and> prim_index p' ! 1 = 1 \<and> prim_tri_index p' ! 1 = 3 \<and>
       prim_object p' ! 1 = 7 \<and> prim_visibility p' ! 1 = 3 \<and>
       prim_tri_verts p' ! 5 = make_float4 6 0 0 0) \<and>
   (let p' = projr (pack_instance sample_env sample_geoms sample_task blank_pack)
    in \<not> isl (pack_instance sample_env sample_geoms sample_task blank_pack) \<and>
       prim_type p' ! 4 = 132 \<and> prim_index p' ! 4 = 2 \<and> prim_tri_index p' ! 4 = - 1 \<and>
       prim_object p' ! 4 = 7 \<and> prim_visibility p' ! 4 = 4)"
proof -
  have sz: "sized 6 6 blank_pack"
    by (simp add: sized_def blank_pack_def)
  have m: "length (prim_type (bvh_pack (sample_geoms (task_geom mesh_task)))) =
           length (prim_index (bvh_pack (sample_geoms (task_geom mesh_task))))"
    "length (prim_tri_index (bvh_pack (sample_geoms (task_geom mesh_task)))) =
           length (prim_index (bvh_pack (sample_geoms (task_geom mesh_task))))"
    "task_pack_offset mesh_task + length (prim_index (bvh_pack (sample_geoms (task_geom mesh_task)))) \<le> 6"
    "task_pack_verts_offset mesh_task +
       length (prim_tri_verts (bvh_pack (sample_geoms (task_geom mesh_task)))) \<le> 6"
    by (simp_all add: mesh_task_def sample_geoms_def tlas_mesh_def)
  have h: "length (prim_type (bvh_pack (sample_geoms (task_geom sample_task)))) =
           length (prim_index (bvh_pack (sample_geoms (task_geom sample_task))))"
    "length (prim_tri_index (bvh_pack (sample_geoms (task_geom sample_task)))) =
           length (prim_index (bvh_pack (sample_geoms (task_geom sample_task))))"
    "task_pack_offset sample_task + length (prim_index (bvh_pack (sample_geoms (task_geom sample_task)))) \<le> 6"
    "task_pack_verts_offset sample_task +
       length (prim_tri_verts (bvh_pack (sample_geoms (task_geom sample_task)))) \<le> 6"
    by (simp_all add: sample_task_def sample_geoms_def tlas_hair_def)
  have mc: "(geometry_type (sample_geoms (task_geom mesh_task)) = MESH \<longrightarrow>
              triangles_is_modified (sample_geoms (task_geom mesh_task)) \<or> task_force_pack mesh_task) \<or>
            task_visibility_modified mesh_task"
    by (simp add: mesh_task_def sample_geoms_def tlas_mesh_def sample_mesh_def)
  have hc: "(geometry_type (sample_geoms (task_geom sample_task)) = MESH \<longrightarrow>
              triangles_is_modified (sample_geoms (task_geom sample_task)) \<or> task_force_pack sample_task) \<or>
            task_visibility_modified sample_task"
    by (simp add: sample_task_def sample_geoms_def tlas_hair_def sample_hair_def)
  from C5_pack_instance_copy [where geoms = sample_geoms and t = mesh_task and K = sample_env,
      OF m(1,2) sz m(3,4), unfolded Let_def] mc
  obtain p' where p': "pack_instance sample_env sample_geoms mesh_task blank_pack = Inr p'"
    and slots: "\<forall>i<length (prim_index (bvh_pack (sample_geoms (task_geom mesh_task)))).
          prim_type p' ! (task_pack_offset mesh_task + i) =
            prim_type (bvh_pack (sample_geoms (task_geom mesh_task))) ! i \<and>
          prim_index p' ! (task_pack_offset mesh_task + i) =
            prim_index (bvh_pack (sample_geoms (task_geom mesh_task))) ! i +
            prim_offset (sample_geoms (task_geom mesh_task)) \<and>
          (prim_type (bvh_pack (sample_geoms (task_geom mesh_task))) ! i AND
             PRIMITIVE_ALL_CURVE sample_env \<noteq> 0 \<longrightarrow>
           prim_tri_index p' ! (task_pack_offset mesh_task + i) = - 1) \<and>
          (prim_type (bvh_pack (sample_geoms (task_geom mesh_task))) ! i AND
             PRIMITIVE_ALL_CURVE sample_env = 0 \<longrightarrow>
           prim_tri_index p' ! (task_pack_offset mesh_task + i) =
             prim_tri_index (bvh_pack (sample_geoms (task_geom mesh_task))) ! i +
             word_of_nat (task_pack_verts_offset mesh_task)) \<and>
          prim_object p' ! (task_pack_offset mesh_task + i) = task_object_index mesh_task \<and>
          prim_visibility p' ! (task_pack_offset mesh_task + i) = task_object_visibility mesh_task"
    and vs: "\<forall>i<length (prim_tri_verts (bvh_pack (sample_geoms (task_geom mesh_task)))).
          prim_tri_verts p' ! (task_pack_verts_offset mesh_task + i) =
            prim_tri_verts (bvh_pack (sample_geoms (task_geom mesh_task))) ! i"
    by blast
  have i1: "1 < length (prim_index (bvh_pack (sample_geoms (task_geom mesh_task))))"
    and i5: "5 < length (prim_tri_verts (bvh_pack (sample_geoms (task_geom mesh_task))))"
    by (simp_all add: mesh_task_def sample_geoms_def tlas_mesh_def)
  have A: "prim_type p' ! 1 = 1 \<and> prim_index p' ! 1 = 1 \<and> prim_tri_index p' ! 1 = 3 \<and>
       prim_object p' ! 1 = 7 \<and> prim_visibility p' ! 1 = 3 \<and>
       prim_tri_verts p' ! 5 = make_float4 6 0 0 0"
    using slots [rule_format, OF i1] vs [rule_format, OF i5]
    by (simp add: mesh_task_def sample_geoms_def tlas_mesh_def sample_mesh_def sample_env_def)
  from C5_pack_instance_copy [where geoms = sample_geoms and t = sample_task and K = sample_env,
      OF h(1,2) sz h(3,4), unfolded Let_def] hc
  obtain q' where q': "pack_instance sample_env sample_geoms sample_task blank_pack = Inr q'"
    and qslots: "\<forall>i<length (prim_index (bvh_pack (sample_geoms (task_geom sample_task)))).
          prim_type q' ! (task_pack_offset sample_task + i) =
            prim_type (bvh_pack (sample_geoms (task_geom sample_task))) ! i \<and>
          prim_index q' ! (task_pack_offset sample_task + i) =
            prim_index (bvh_pack (sample_geoms (task_geom sample_task))) ! i +
            prim_offset (sample_geoms (task_geom sample_task)) \<and>
          (prim_type (bvh_pack (sample_geoms (task_geom sample_task))) ! i AND
             PRIMITIVE_ALL_CURVE sample_env \<noteq> 0 \<longrightarrow>
           prim_tri_index q' ! (task_pack_offset sample_task + i) = - 1) \<and>
          (prim_type (bvh_pack (sample_geoms (task_geom sample_task))) ! i AND
             PRIMITIVE_ALL_CURVE sample_env = 0 \<longrightarrow>
           prim_tri_index q' ! (task_pack_offset sample_task + i) =
             prim_tri_index (bvh_pack (sample_geoms (task_geom sample_task))) ! i +
             word_of_nat (task_pack_verts_offset sample_task)) \<and>
          prim_object q' ! (task_pack_offset sample_task + i) = task_object_index sample_task \<and>
          prim_visibility q' ! (task_pack_offset sample_task + i) = task_object_visibility sample_task"
    by blast
  have i2: "2 < length (prim_index (bvh_pack (sample_geoms (task_geom sample_task))))"
    by (simp add: sample_task_def sample_geoms_def tlas_hair_def)
  have B: "prim_type q' ! 4 = 132 \<and> prim_index q' ! 4 = 2 \<and> prim_tri_index q' ! 4 = - 1 \<and>
       prim_object q' ! 4 = 7 \<and> prim_visibility q' ! 4 = 4"
    using qslots [rule_format, OF i2]
    by (simp add: sample_task_def sample_geoms_def tlas_hair_def sample_hair_def sample_env_def)
  show ?thesis
    using A B by (simp add: p' q')
qed

text \<open>
  Claim C6, as amended. Let the bottom-level packs of the scene be well formed, and
  let \<open>G\<close>, at position \<open>i\<close> of the geometry list, be instanced, have its merge task
  scheduled (\<open>G\<close> is marked modified or \<^verbatim>\<open>pack_all_data\<close> is set) and have its primitive
  data copied (\<open>G\<close> is not a mesh, or its triangles are modified, or \<^verbatim>\<open>pack_all_data\<close> is
  set, or an object using \<open>G\<close> has its visibility or shadow-catcher flag modified).
  Then \<^verbatim>\<open>pack_tlas\<close> returns and every slot of the block of \<open>G\<close> carries the bitwise OR
  of the tracing visibilities of all objects that use \<open>G\<close>: \<open>Va | Vb\<close> when these are
  exactly A and B.
\<close>

theorem C6_pack_tlas_visibility_merge:
  assumes "\<forall>g\<in>set (geometry s).
             length (prim_type (bvh_pack (geoms g))) = length (prim_index (bvh_pack (geoms g))) \<and>
             length (prim_tri_index (bvh_pack (geoms g))) = length (prim_index (bvh_pack (geoms g)))"
    and "i < length (geometry s)" and "G = geometry s ! i"
    and "is_instanced (geoms G)"
    and "is_modified (geoms G) \<or> pack_all_data s"
    and "geometry_type (geoms G) \<noteq> MESH \<or> triangles_is_modified (geoms G) \<or> pack_all_data s \<or>
         (\<exists>ob\<in>set (objects s). ob_geometry ob = G \<and>
            (visibility_is_modified ob \<or> is_shadow_catcher_is_modified ob))"
  shows "\<exists>d' s'. pack_tlas K geoms (d, s) = Inr (d', s') \<and>
           (\<forall>k<length (prim_index (bvh_pack (geoms G))).
              prim_visibility (pack s') ! (fst (offsets_at K geoms s i) + k) =
                fold (\<lambda>ob v. v OR visibility_for_tracing K ob)
                  (filter (\<lambda>ob. ob_geometry ob = G) (objects s)) 0 \<and>
              (\<forall>A B. filter (\<lambda>ob. ob_geometry ob = G) (objects s) = [A, B] \<longrightarrow>
                 prim_visibility (pack s') ! (fst (offsets_at K geoms s i) + k) =
                   visibility_for_tracing K A OR visibility_for_tracing K B))"
proof -
  let ?gs = "geometry s"
  let ?L = "sum_list (map (slots geoms) ?gs)"
  let ?LV = "sum_list (map (verts geoms) ?gs)"
  let ?off = "sum_list (map (slots geoms) (take i ?gs))"
  let ?voff = "sum_list (map (verts geoms) (take i ?gs))"
  let ?V = "fold (\<lambda>ob v. v OR visibility_for_tracing K ob)
              (filter (\<lambda>ob. ob_geometry ob = G) (objects s)) 0"
  have two: "?V = visibility_for_tracing K A OR visibility_for_tracing K B"
    if "filter (\<lambda>ob. ob_geometry ob = G) (objects s) = [A, B]" for A B
    by (simp add: that)
  show ?thesis
  proof (cases "?L = 0")
    case True
    then have "pack_tlas_dispatch K geoms (d, s) = (d, s, [])"
      unfolding pack_tlas_dispatch_eq by (rule if_P)
    then have run: "pack_tlas K geoms (d, s) = Inr (d, s)"
      by (simp add: pack_tlas_def)
    have "slots geoms G = 0"
      using True assms(2,3) by simp
    then show ?thesis
      using run by (simp add: slots_def)
  next
    case False
    let ?p0 = "(pack s)\<lparr>prim_type := resize (uninitialized K) ?L (prim_type (pack s)),
                  prim_index := resize (uninitialized K) ?L (prim_index (pack s)),
                  prim_object := resize (uninitialized K) ?L (prim_object (pack s)),
                  prim_visibility := resize (uninitialized K) ?L (prim_visibility (pack s)),
                  prim_tri_index := resize (uninitialized K) ?L (prim_tri_index (pack s)),
                  prim_tri_verts := resize (uninitialized_verts K) ?LV (prim_tri_verts (pack s))\<rparr>"
    let ?pool = "tasks_from K geoms s ?gs 0 0"
    let ?bt = "bound_task K geoms s G ?off ?voff"
    let ?T1 = "tasks_from K geoms s (take i ?gs) 0 0"
    let ?T2 = "tasks_from K geoms s (drop (Suc i) ?gs) (?off + slots geoms G) (?voff + verts geoms G)"
    have disp: "pack_tlas_dispatch K geoms (d, s) =
        (fst (pack_tlas_loop K geoms s ?gs (d, 0, 0, [])), s\<lparr>pack := ?p0\<rparr>, ?pool)"
      unfolding pack_tlas_dispatch_eq using False by (rule if_not_P)
    have p0: "sized ?L ?LV ?p0"
      by (rule sized_resized)
    have wf: "\<forall>g\<in>set ?gs. pack_wf (bvh_pack (geoms g))"
      using assms(1) by (simp add: pack_wf_def)
    have ok: "\<forall>t\<in>set ?pool. task_ok geoms ?L ?LV t \<and> 0 \<le> task_pack_offset t"
      using wf by (intro tasks_from_ok) simp_all
    then have all_ok: "\<forall>t\<in>set ?pool. task_ok geoms ?L ?LV t"
      by blast
    have ww: "wait_work K geoms ?pool ?p0 = Inr (fold (merged K geoms) ?pool ?p0)"
      using wait_work_eq [OF all_ok p0] by blast
    have run: "pack_tlas K geoms (d, s) =
        Inr (fst (pack_tlas_loop K geoms s ?gs (d, 0, 0, [])),
             s\<lparr>pack := fold (merged K geoms) ?pool ?p0\<rparr>)"
      by (simp add: pack_tlas_def disp ww)
    have split: "?gs = take i ?gs @ G # drop (Suc i) ?gs"
      using assms(2,3) by (simp add: id_take_nth_drop)
    have sched: "scheduled geoms s G"
      using assms(5) by (simp add: scheduled_def)
    have "?pool = tasks_from K geoms s (take i ?gs @ G # drop (Suc i) ?gs) 0 0"
      using split by simp
    also have "\<dots> = ?T1 @ ?bt # ?T2"
      by (simp add: tasks_from_append sched)
    finally have pool: "?pool = ?T1 @ ?bt # ?T2" .
    have sums: "?L = ?off + slots geoms G + sum_list (map (slots geoms) (drop (Suc i) ?gs))"
               "?LV = ?voff + verts geoms G + sum_list (map (verts geoms) (drop (Suc i) ?gs))"
    proof -
      have "map (slots geoms) ?gs = map (slots geoms) (take i ?gs @ G # drop (Suc i) ?gs)"
        using split by simp
      then show "?L = ?off + slots geoms G + sum_list (map (slots geoms) (drop (Suc i) ?gs))"
        by simp
      have "map (verts geoms) ?gs = map (verts geoms) (take i ?gs @ G # drop (Suc i) ?gs)"
        using split by simp
      then show "?LV = ?voff + verts geoms G + sum_list (map (verts geoms) (drop (Suc i) ?gs))"
        by simp
    qed
    have wf2: "\<forall>g\<in>set (drop (Suc i) ?gs). pack_wf (bvh_pack (geoms g))"
      using wf by (meson in_set_dropD)
    have T2: "\<forall>t\<in>set ?T2. task_ok geoms ?L ?LV t \<and> ?off + slots geoms G \<le> task_pack_offset t"
      using wf2 by (intro tasks_from_ok) (simp_all add: sums)
    have T1: "\<forall>t\<in>set ?T1. task_ok geoms ?L ?LV t"
      using all_ok pool by simp
    have bt: "task_ok geoms ?L ?LV ?bt"
      using all_ok pool by simp
    let ?p1 = "fold (merged K geoms) ?T1 ?p0"
    have p1: "sized ?L ?LV ?p1"
      using wait_work_eq [OF T1 p0] by blast
    have p2: "sized ?L ?LV (merged K geoms ?bt ?p1)"
      using bt p1 by (rule sized_merged)
    have final: "fold (merged K geoms) ?pool ?p0 = fold (merged K geoms) ?T2 (merged K geoms ?bt ?p1)"
      by (simp add: pool)
    have scan: "scan_objects K G (geoms G) (objects s) (0, 0, False) =
        (0, ?V, \<exists>ob\<in>set (objects s). ob_geometry ob = G \<and>
                  (visibility_is_modified ob \<or> is_shadow_catcher_is_modified ob))"
      using assms(4) by (simp add: scan_objects_instanced)
    have changed: "prims_have_changed (geoms (task_geom ?bt)) ?bt"
      using assms(6) by (auto simp: prims_have_changed_def is_mesh_def scan)
    have vis: "task_object_visibility ?bt = ?V"
      by (simp add: scan)
    have slot: "prim_visibility (fold (merged K geoms) ?pool ?p0) ! (?off + k) = ?V"
      if k: "k < slots geoms G" for k
    proof -
      have x: "?off + k < ?L" using k sums by simp
      have "prim_visibility (fold (merged K geoms) ?T2 (merged K geoms ?bt ?p1)) ! (?off + k) =
            prim_visibility (merged K geoms ?bt ?p1) ! (?off + k)"
        using T2 k p2 x by (intro fold_merged_visibility_frame [where L = ?L and LV = ?LV]) auto
      also have "\<dots> = ?V"
        using merged_visibility_block [OF bt p1 changed, of k K] k by (simp add: scan)
      finally show ?thesis
        unfolding final .
    qed
    show ?thesis
      using slot two
      by (simp add: run offsets_at_eq slots_def)
  qed
qed

text \<open>
  Claim C6 as stated fails in two ways. When \<open>G\<close> is not instanced the scan of the
  objects stops at the first user: with A (mask 1) and B (mask 2) on such a mesh the
  slots carry 1, not 3. And when \<open>G\<close> is not marked modified and \<^verbatim>\<open>pack_all_data\<close> is
  not set no task is pushed, even if the visibility of an object is marked modified:
  after the visibility of A changed from 1 to 4 the slots of the mesh still carry 3,
  not 6.
\<close>

theorem C6_counterexample:
  "ob_geometry object_A = 0 \<and> ob_geometry object_B = 0 \<and> geometry two_users_tlas = [0] \<and>
   visibility_for_tracing sample_env object_A OR visibility_for_tracing sample_env object_B = 3 \<and>
   \<not> isl (pack_tlas sample_env single_user_geoms (\<lambda>g. 0, two_users_tlas)) \<and>
   prim_visibility (pack (snd (projr (pack_tlas sample_env single_user_geoms (\<lambda>g. 0, two_users_tlas))))) =
     [1, 1] \<and>
   ob_geometry (objects revisited_tlas ! 0) = 0 \<and> ob_geometry (objects revisited_tlas ! 1) = 0 \<and>
   visibility_for_tracing sample_env (objects revisited_tlas ! 0) OR
     visibility_for_tracing sample_env (objects revisited_tlas ! 1) = 6 \<and>
   \<not> isl (pack_tlas sample_env unmodified_geoms (\<lambda>g. 0, revisited_tlas)) \<and>
   prim_visibility (pack (snd (projr (pack_tlas sample_env unmodified_geoms (\<lambda>g. 0, revisited_tlas))))) =
     [3, 3, 4, 4, 4, 4]"
proof -
  have r: "pack_tlas sample_env unmodified_geoms (\<lambda>g. 0, revisited_tlas) =
      Inr (fst (pack_tlas_dispatch sample_env unmodified_geoms (\<lambda>g. 0, revisited_tlas)), revisited_tlas)"
  proof -
    have "snd (pack_tlas_dispatch sample_env unmodified_geoms (\<lambda>g. 0, revisited_tlas)) = (revisited_tlas, []) \<and>
        pack_tlas sample_env unmodified_geoms (\<lambda>g. 0, revisited_tlas) =
          Inr (fst (pack_tlas_dispatch sample_env unmodified_geoms (\<lambda>g. 0, revisited_tlas)), revisited_tlas)"
      by (rule pack_tlas_unscheduled)
         (simp_all add: revisited_tlas_def packed_tlas_eq unmodified_geoms_def sized_def
            slots_def verts_def sample_geoms_def tlas_mesh_def tlas_hair_def)
    then show ?thesis by blast
  qed
  show ?thesis
    using single_user_packed
    by (simp add: r)
       (simp add: revisited_tlas_def packed_tlas_eq object_A_def object_B_def sample_env_def
          two_users_tlas_def sample_tlas_def)
qed

text \<open>The first build of the sample scene: the slots of the mesh carry \<open>1 | 2\<close>.\<close>

theorem C6_pack_tlas_visibility_merge_witness:
  "\<not> isl (pack_tlas sample_env sample_geoms (\<lambda>g. 0, sample_tlas)) \<and>
   filter (\<lambda>ob. ob_geometry ob = 0) (objects sample_tlas) = [object_A, object_B] \<and>
   fst (offsets_at sample_env sample_geoms sample_tlas 0) = 0 \<and>
   prim_visibility (pack (snd (projr (pack_tlas sample_env sample_geoms (\<lambda>g. 0, sample_tlas))))) ! 1 =
     visibility_for_tracing sample_env object_A OR visibility_for_tracing sample_env object_B \<and>
   visibility_for_tracing sample_env object_A OR visibility_for_tracing sample_env object_B = 3"
proof -
  have wf: "\<forall>g\<in>set (geometry sample_tlas).
             length (prim_type (bvh_pack (sample_geoms g))) = length (prim_index (bvh_pack (sample_geoms g))) \<and>
             length (prim_tri_index (bvh_pack (sample_geoms g))) = length (prim_index (bvh_pack (sample_geoms g)))"
    by (simp add: sample_tlas_def sample_geoms_def tlas_mesh_def tlas_hair_def)
  have i: "0 < length (geometry sample_tlas)" and G: "0 = geometry sample_tlas ! 0"
    by (simp_all add: sample_tlas_def)
  have inst: "is_instanced (sample_geoms 0)"
    and sched: "is_modified (sample_geoms 0) \<or> pack_all_data sample_tlas"
    and changed: "geometry_type (sample_geoms 0) \<noteq> MESH \<or> triangles_is_modified (sample_geoms 0) \<or>
        pack_all_data sample_tlas \<or>
        (\<exists>ob\<in>set (objects sample_tlas). ob_geometry ob = 0 \<and>
            (visibility_is_modified ob \<or> is_shadow_catcher_is_modified ob))"
    by (simp_all add: sample_geoms_def tlas_mesh_def sample_mesh_def sample_tlas_def)
  have f: "filter (\<lambda>ob. ob_geometry ob = 0) (objects sample_tlas) = [object_A, object_B]"
    by (simp add: sample_tlas_def object_A_def object_B_def object_C_def)
  have o: "fst (offsets_at sample_env sample_geoms sample_tlas 0) = 0"
    by (simp add: offsets_at_def)
  have k: "1 < length (prim_index (bvh_pack (sample_geoms 0)))"
    by (simp add: sample_geoms_def tlas_mesh_def)
  have v: "visibility_for_tracing sample_env object_A OR visibility_for_tracing sample_env object_B = 3"
    by (simp add: sample_env_def object_A_def object_B_def)
  from C6_pack_tlas_visibility_merge [where geoms = sample_geoms and s = sample_tlas and i = 0
      and G = 0 and K = sample_env and d = "\<lambda>g. 0", OF wf i G inst sched changed]
  obtain d' s' where run: "pack_tlas sample_env sample_geoms (\<lambda>g. 0, sample_tlas) = Inr (d', s')"
    and vis: "\<forall>k<length (prim_index (bvh_pack (sample_geoms 0))).
        prim_visibility (pack s') ! (fst (offsets_at sample_env sample_geoms sample_tlas 0) + k) =
          fold (\<lambda>ob v. v OR visibility_for_tracing sample_env ob)
            (filter (\<lambda>ob. ob_geometry ob = 0) (objects sample_tlas)) 0 \<and>
        (\<forall>A B. filter (\<lambda>ob. ob_geometry ob = 0) (objects sample_tlas) = [A, B] \<longrightarrow>
           prim_visibility (pack s') ! (fst (offsets_at sample_env sample_geoms sample_tlas 0) + k) =
             visibility_for_tracing sample_env A OR visibility_for_tracing sample_env B)"
    by blast
  from vis [rule_format, OF k] f
  have "prim_visibility (pack s') ! (fst (offsets_at sample_env sample_geoms sample_tlas 0) + 1) =
      visibility_for_tracing sample_env object_A OR visibility_for_tracing sample_env object_B"
    by blast
  then show ?thesis
    using f v by (simp add: run o)
qed

text \<open>
  Claim C7. Let a first run of \<^verbatim>\<open>pack_tlas\<close> have returned. A second run on its
  result, with the same geometry list and the same bottom-level packs, no geometry
  marked modified and \<^verbatim>\<open>pack_all_data\<close> not set, pushes no task and returns with the
  BVH, and so every array of the scene pack, unchanged: the resize to the same totals
  keeps the content. (The flags of the objects play no part here: no task runs that
  would read them.)
\<close>

theorem C7_pack_tlas_idempotent:
  assumes "pack_tlas K geoms (d, s) = Inr (d1, s1)"
    and "geometry s2 = geometry s" and "pack s2 = pack s1"
    and "\<forall>g\<in>set (geometry s). bvh_pack (geoms2 g) = bvh_pack (geoms g)"
    and "\<forall>g\<in>set (geometry s). \<not> is_modified (geoms2 g)"
    and "\<not> pack_all_data s2"
  shows "(\<exists>d'. pack_tlas K2 geoms2 (d2, s2) = Inr (d', s2)) \<and>
         snd (snd (pack_tlas_dispatch K2 geoms2 (d2, s2))) = []"
proof -
  have eq: "map (slots geoms2) (geometry s) = map (slots geoms) (geometry s)"
           "map (verts geoms2) (geometry s) = map (verts geoms) (geometry s)"
    using slots_cong [OF assms(4)] by simp_all
  have "sum_list (map (slots geoms2) (geometry s2)) = 0 \<or>
     sized (sum_list (map (slots geoms2) (geometry s2))) (sum_list (map (verts geoms2) (geometry s2))) (pack s2)"
  proof -
    from pack_tlas_sized [OF assms(1)]
    have "sum_list (map (slots geoms) (geometry s)) = 0 \<or>
          sized (sum_list (map (slots geoms) (geometry s))) (sum_list (map (verts geoms) (geometry s))) (pack s1)"
      by blast
    then show ?thesis
      by (simp add: assms(2,3) eq)
  qed
  with assms(5,6) have "snd (pack_tlas_dispatch K2 geoms2 (d2, s2)) = (s2, []) \<and>
         pack_tlas K2 geoms2 (d2, s2) = Inr (fst (pack_tlas_dispatch K2 geoms2 (d2, s2)), s2)"
    by (intro pack_tlas_unscheduled) (simp_all add: assms(2))
  then show ?thesis
    by auto
qed

text \<open>The sample scene built twice, the second time with nothing marked modified.\<close>

theorem C7_pack_tlas_idempotent_witness:
  "\<not> isl (pack_tlas sample_env sample_geoms (\<lambda>g. 0, sample_tlas)) \<and>
   \<not> isl (pack_tlas sample_env unmodified_geoms (\<lambda>g. 0, rerun_tlas)) \<and>
   snd (projr (pack_tlas sample_env unmodified_geoms (\<lambda>g. 0, rerun_tlas))) = rerun_tlas \<and>
   prim_visibility (pack rerun_tlas) = [3, 3, 4, 4, 4, 4] \<and>
   snd (snd (pack_tlas_dispatch sample_env unmodified_geoms (\<lambda>g. 0, rerun_tlas))) = []"
proof -
  have g: "geometry rerun_tlas = geometry sample_tlas"
    by (simp add: rerun_tlas_def packed_tlas_eq sample_tlas_def)
  have p: "pack rerun_tlas = pack packed_tlas"
    by (simp add: rerun_tlas_def)
  have same: "\<forall>g\<in>set (geometry sample_tlas). bvh_pack (unmodified_geoms g) = bvh_pack (sample_geoms g)"
    by (simp add: unmodified_geoms_def)
  have unmod: "\<forall>g\<in>set (geometry sample_tlas). \<not> is_modified (unmodified_geoms g)"
    by (simp add: unmodified_geoms_def)
  have nf: "\<not> pack_all_data rerun_tlas"
    by (simp add: rerun_tlas_def)
  from C7_pack_tlas_idempotent [OF sample_packed g p same unmod nf, of sample_env "\<lambda>g. 0"]
  obtain d' where "pack_tlas sample_env unmodified_geoms (\<lambda>g. 0, rerun_tlas) = Inr (d', rerun_tlas)"
    and "snd (snd (pack_tlas_dispatch sample_env unmodified_geoms (\<lambda>g. 0, rerun_tlas))) = []"
    by blast
  then show ?thesis
    using sample_not_isl by (simp add: p packed_tlas_eq)
qed

subsection \<open>copy_to_device\<close>

text \<open>
  Claim C9. When the device build reports failure, \<^verbatim>\<open>copy_to_device\<close> returns normally
  (the model has no exception branch: the function has no \<^verbatim>\<open>throw\<close> and no exit), the
  progress collaborator has received \<^verbatim>\<open>set_error\<close> with the text "Failed to build OptiX
  acceleration structure" after the status message, and the BVH, with its packed
  representation, is exactly as before; a later call on it with a device that
  succeeds reports the status only.
\<close>

theorem C9_copy_to_device_failure:
  assumes "\<not> build_optix_bvh K s"
  shows "copy_to_device K progress s =
           (progress @ [set_status ''Updating Scene BVH'' ''Building OptiX acceleration structure'',
                        set_error ''Failed to build OptiX acceleration structure''], s) \<and>
         (build_optix_bvh K' s \<longrightarrow>
            copy_to_device K' progress' (snd (copy_to_device K progress s)) =
              (progress' @ [set_status ''Updating Scene BVH'' ''Building OptiX acceleration structure''], s))"
  using assms by (simp add: copy_to_device_def)

text \<open>The sample device refuses the BVH that is not packed yet; a second device accepts it.\<close>

theorem C9_copy_to_device_failure_witness:
  "\<not> build_optix_bvh sample_env sample_blas \<and>
   fst (copy_to_device sample_env [] sample_blas) =
     [set_status ''Updating Scene BVH'' ''Building OptiX acceleration structure'',
      set_error ''Failed to build OptiX acceleration structure''] \<and>
   snd (copy_to_device sample_env [] sample_blas) = sample_blas \<and>
   copy_to_device (sample_env\<lparr>build_optix_bvh := \<lambda>s. True\<rparr>) []
       (snd (copy_to_device sample_env [] sample_blas)) =
     ([set_status ''Updating Scene BVH'' ''Building OptiX acceleration structure''], sample_blas)"
proof -
  have f: "\<not> build_optix_bvh sample_env sample_blas"
    by (simp add: sample_env_def sample_blas_def empty_pack_def)
  have t: "build_optix_bvh (sample_env\<lparr>build_optix_bvh := \<lambda>s. True\<rparr>) sample_blas"
    by simp
  note c = C9_copy_to_device_failure [OF f, of "[]" "sample_env\<lparr>build_optix_bvh := \<lambda>s. True\<rparr>" "[]"]
  from c have a: "copy_to_device sample_env [] sample_blas =
     ([set_status ''Updating Scene BVH'' ''Building OptiX acceleration structure'',
       set_error ''Failed to build OptiX acceleration structure''], sample_blas)"
    by simp
  from c [THEN conjunct2, THEN mp, OF t] have b: "copy_to_device (sample_env\<lparr>build_optix_bvh := \<lambda>s. True\<rparr>) []
       (snd (copy_to_device sample_env [] sample_blas)) =
     ([set_status ''Updating Scene BVH'' ''Building OptiX acceleration structure''], sample_blas)"
    by simp
  show ?thesis
    using f b by (simp add: a)
qed

end
